theory Spec2Isabelle
  imports Complex_Main
begin

section \<open>Data model\<close>

text \<open>
  The optimizer of \<^verbatim>\<open>main.go\<close> reads nodes, pods, deployments and their usage samples
  from the cluster API and turns them into recommendations and cost figures.

  Conventions of the embedding.
  \<^item> A \<^verbatim>\<open>resource.Quantity\<close> is an exact decimal number: it is a \<open>rat\<close>.
    \<^verbatim>\<open>MilliValue()\<close> and \<^verbatim>\<open>Value()\<close> round away from zero to an integer;
    the \<^verbatim>\<open>int64\<close> they return is an unbounded \<open>int\<close> here.
  \<^item> A \<^verbatim>\<open>corev1.ResourceList\<close> is a map from resource names to quantities; reading a
    missing key gives the zero quantity. A \<^verbatim>\<open>nil\<close> list is \<open>None\<close>.
  \<^item> A finite \<^verbatim>\<open>float64\<close> is the real number it denotes, and each operation of
    the source on floats is the exact operation followed by \<open>round64\<close>, the rounding
    of IEEE 754 to the nearest number of 53 significant bits, ties to even. The
    operations round their operands as well: a decimal literal of the source, such as
    \<^verbatim>\<open>0.0832\<close>, is written as it is and becomes a float where it is used. The
    operations are rounded one by one, as on amd64, the target of the Makefile.
    Overflow beyond the largest float and the sign of zero are not modelled: the sums
    and products of costs stay far below the first, and nothing divides by a zero that
    could be negative.
  \<^item> A \<^verbatim>\<open>float64\<close> that comes out of a division by a variable is a value of the type
    \<open>float64\<close> below, with the infinities and NaN of IEEE 754. A \<^verbatim>\<open>float64\<close>
    built from sums and products of finite values only (costs, savings) is a \<open>real\<close>.
  \<^item> The optimizer that a handler reads is a parameter, one for each read of
    \<^verbatim>\<open>co.recommendations\<close>: nothing in the source orders the reads of a handler and
    the assignment that ends a cycle.
  \<^item> \<^verbatim>\<open>time.Now()\<close> is a parameter \<open>now\<close>.
  \<^item> A call of the inventory or metrics API returns \<open>Inl e\<close> when it fails and
    \<open>Inr items\<close> when it succeeds.
  \<^item> The order in which \<^verbatim>\<open>range\<close> visits the keys of the price table, a Go map, is
    not specified by the language: it is a parameter \<open>ord\<close>.
  \<^item> The text of a description is kept as the format it is printed with and the
    arguments of that format.
\<close>

type_synonym Time = nat

type_synonym Quantity = rat

datatype ResourceName = ResourceCPU | ResourceMemory

type_synonym ResourceList = "ResourceName \<rightharpoonup> Quantity"

datatype PodPhase = PodPending | PodRunning | PodSucceeded | PodFailed | PodUnknown

datatype float64 = Fin real | PInf | NInf | NaN

datatype api_error = ProviderUnavailable

record Node =
  node_Name :: string
  node_Capacity :: ResourceList

record NodeUsage =
  nu_Name :: string
  nu_Usage :: ResourceList

record Container =
  c_Name :: string
  c_Requests :: "ResourceList option"
  c_Limits :: "ResourceList option"

record ContainerUsage =
  cu_Name :: string
  cu_Usage :: ResourceList

record Pod =
  pod_Name :: string
  pod_Namespace :: string
  pod_Phase :: PodPhase
  pod_Containers :: "Container list"

record PodUsage =
  pu_Name :: string
  pu_Namespace :: string
  pu_Containers :: "ContainerUsage list"

record Deployment =
  dep_Name :: string
  dep_Namespace :: string
  dep_Replicas :: int
  dep_Containers :: "Container list"

record Cluster =
  list_nodes :: "api_error + Node list"
  list_node_metrics :: "api_error + NodeUsage list"
  list_pods :: "api_error + Pod list"
  list_pod_metrics :: "api_error + PodUsage list"
  list_deployments :: "api_error + Deployment list"

datatype DescriptionText =
    NodeUnderutilized string float64 float64
  | NodeOverutilized string float64 float64
  | CPUOverProvisioned string int int
  | MemoryOverProvisioned string Quantity Quantity
  | DeploymentAutoScaling string
  | DeploymentLacksResources string

record Recommendation =
  Type :: string
  Resource :: string
  Namespace :: string
  Description :: DescriptionText
  Impact :: string
  Savings :: real
  Priority :: string
  Timestamp :: Time

record NodeMetrics =
  nm_Name :: string
  nm_CPUUsage :: real
  nm_MemoryUsage :: real
  nm_CPUCapacity :: real
  nm_MemoryCapacity :: real
  nm_CPUUtilization :: float64
  nm_MemoryUtilization :: float64
  nm_EstimatedCost :: real
  nm_InstanceType :: string

record PodMetrics =
  pm_Name :: string
  pm_Namespace :: string
  pm_CPUUsage :: real
  pm_MemoryUsage :: real
  pm_CPURequest :: real
  pm_MemoryRequest :: real
  pm_CPULimit :: real
  pm_MemoryLimit :: real
  pm_EstimatedCost :: real

record ClusterCostSummary =
  TotalMonthlyCost :: real
  ComputeCost :: real
  StorageCost :: real
  WastedResources :: real
  PotentialSavings :: real
  NodeCount :: nat
  PodCount :: nat
  NamespaceCosts :: "string \<rightharpoonup> real"
  RecommendationCount :: nat
  LastUpdated :: Time

record OptimizationAction =
  act_ID :: string
  act_Type :: string
  act_Resource :: string
  act_Namespace :: string
  act_Action :: string
  act_Parameters :: "(string \<times> int) list"
  act_Status :: string
  act_CreatedAt :: Time
  act_ExecutedAt :: "Time option"

record CostOptimizer =
  recommendations :: "Recommendation list"

section \<open>Quantities, floats and strings\<close>

definition round_away :: "rat \<Rightarrow> int" where
  "round_away q = (if 0 \<le> q then \<lceil>q\<rceil> else \<lfloor>q\<rfloor>)"

definition MilliValue :: "Quantity \<Rightarrow> int" where
  "MilliValue q = round_away (q * 1000)"

definition Value :: "Quantity \<Rightarrow> int" where
  "Value q = round_away q"

definition IsZero :: "Quantity \<Rightarrow> bool" where
  "IsZero q = (q = 0)"

definition quantity :: "ResourceList \<Rightarrow> ResourceName \<Rightarrow> Quantity" where
  "quantity rl k = (case rl k of None \<Rightarrow> 0 | Some q \<Rightarrow> q)"

text \<open>The number of binary digits of a natural number.\<close>

fun bit_length :: "nat \<Rightarrow> nat" where
  "bit_length n = (if n = 0 then 0 else Suc (bit_length (n div 2)))"

declare bit_length.simps [simp del]

text \<open>For a positive \<open>x\<close>, the exponent \<open>e\<close> with \<open>2 ^ e \<le> x < 2 ^ (e + 1)\<close>.\<close>

definition ilog2 :: "real \<Rightarrow> int" where
  "ilog2 x = (if 1 \<le> x then int (bit_length (nat \<lfloor>x\<rfloor>)) - 1
              else - int (bit_length (nat (\<lceil>1 / x\<rceil> - 1))))"

definition pow2 :: "int \<Rightarrow> real" where
  "pow2 k = (if 0 \<le> k then 2 ^ nat k else 1 / 2 ^ nat (- k))"

text \<open>Rounding to the nearest integer, a tie to the even one.\<close>

definition round_even :: "real \<Rightarrow> int" where
  "round_even x =
     (let f = \<lfloor>x\<rfloor>; d = x - of_int f
      in if d < 1 / 2 then f else if 1 / 2 < d then f + 1 else if even f then f else f + 1)"

text \<open>Rounding to \<^verbatim>\<open>float64\<close>: 53 significant bits at the exponent of \<open>x\<close>, and the
  fixed spacing of the subnormal numbers below \<open>2 ^ - 1022\<close>.\<close>

definition round64 :: "real \<Rightarrow> real" where
  "round64 x =
     (if x = 0 then 0
      else (let e = max (ilog2 \<bar>x\<bar>) (- 1022);
                m = round_even (\<bar>x\<bar> * pow2 (52 - e))
            in sgn x * (of_int m * pow2 (e - 52))))"

text \<open>The operations \<^verbatim>\<open>+\<close>, \<^verbatim>\<open>*\<close> and \<^verbatim>\<open>/\<close> of \<^verbatim>\<open>float64\<close> on finite values, the divisor
  not zero; \<open>fdiv\<close> on an integer is also the conversion \<^verbatim>\<open>float64(n)\<close> of its operand.\<close>

definition fadd :: "real \<Rightarrow> real \<Rightarrow> real" where
  "fadd x y = round64 (round64 x + round64 y)"

definition fmul :: "real \<Rightarrow> real \<Rightarrow> real" where
  "fmul x y = round64 (round64 x * round64 y)"

definition fdiv :: "real \<Rightarrow> real \<Rightarrow> real" where
  "fdiv x y = round64 (round64 x / round64 y)"

text \<open>\<^verbatim>\<open>float64(a) / float64(b)\<close> for two integers: no panic, an infinity or NaN when
  \<open>b\<close> is zero.\<close>

definition float_div :: "int \<Rightarrow> int \<Rightarrow> float64" where
  "float_div a b =
     (if b = 0 then (if a = 0 then NaN else if 0 < a then PInf else NInf)
      else Fin (fdiv (real_of_int a) (real_of_int b)))"

text \<open>Multiplication of a float by a positive finite constant.\<close>

fun float_scale :: "float64 \<Rightarrow> real \<Rightarrow> float64" where
  "float_scale (Fin x) c = Fin (fmul x c)"
| "float_scale PInf c = PInf"
| "float_scale NInf c = NInf"
| "float_scale NaN c = NaN"

text \<open>The comparisons \<^verbatim>\<open>x < c\<close> and \<^verbatim>\<open>x > c\<close> of a float with a finite constant:
  both are false on NaN.\<close>

fun float_less :: "float64 \<Rightarrow> real \<Rightarrow> bool" where
  "float_less (Fin x) c = (x < c)"
| "float_less PInf c = False"
| "float_less NInf c = True"
| "float_less NaN c = False"

fun float_greater :: "float64 \<Rightarrow> real \<Rightarrow> bool" where
  "float_greater (Fin x) c = (c < x)"
| "float_greater PInf c = True"
| "float_greater NInf c = False"
| "float_greater NaN c = False"

text \<open>Integer division of Go: the quotient is truncated toward zero.\<close>

definition go_div :: "int \<Rightarrow> int \<Rightarrow> int" where
  "go_div a b = sgn a * sgn b * (\<bar>a\<bar> div \<bar>b\<bar>)"

fun HasPrefix :: "string \<Rightarrow> string \<Rightarrow> bool" where
  "HasPrefix s [] = True"
| "HasPrefix [] (p # ps) = False"
| "HasPrefix (c # s) (p # ps) = (c = p \<and> HasPrefix s ps)"

fun Contains :: "string \<Rightarrow> string \<Rightarrow> bool" where
  "Contains [] sub = (sub = [])"
| "Contains (c # s) sub = (HasPrefix (c # s) sub \<or> Contains s sub)"

text \<open>\<^verbatim>\<open>strings.ToLower\<close> on the ASCII letters; other bytes are left as they are.\<close>

definition lower_char :: "char \<Rightarrow> char" where
  "lower_char c =
     (let n = (of_char c :: nat) in if 65 \<le> n \<and> n \<le> 90 then char_of (n + 32) else c)"

definition ToLower :: "string \<Rightarrow> string" where
  "ToLower s = map lower_char s"

section \<open>Cost model\<close>

definition NodeCostPerHour :: "(string \<times> real) list" where
  "NodeCostPerHour =
     [(''t3.micro'', 0.0104), (''t3.small'', 0.0208), (''t3.medium'', 0.0416),
      (''t3.large'', 0.0832), (''t3.xlarge'', 0.1664), (''t3.2xlarge'', 0.3328),
      (''m5.large'', 0.096), (''m5.xlarge'', 0.192), (''m5.2xlarge'', 0.384),
      (''m5.4xlarge'', 0.768), (''c5.large'', 0.085), (''c5.xlarge'', 0.17),
      (''c5.2xlarge'', 0.34), (''c5.4xlarge'', 0.68), (''default'', 0.1)]"

text \<open>Reading the table at a key: a missing key reads as the zero value.\<close>

definition cost_at :: "string \<Rightarrow> real" where
  "cost_at k = (case map_of NodeCostPerHour k of None \<Rightarrow> 0 | Some c \<Rightarrow> c)"

text \<open>An order in which \<^verbatim>\<open>range\<close> may visit the table: every key once.\<close>

definition map_order :: "string list \<Rightarrow> bool" where
  "map_order ord = (distinct ord \<and> set ord = set (map fst NodeCostPerHour))"

definition calculateNodeCost :: "string list \<Rightarrow> string \<Rightarrow> string \<Rightarrow> real" where
  "calculateNodeCost ord nodeName instanceType =
     (if instanceType = [] then
        (case find (\<lambda>nodeType. Contains nodeName nodeType) ord of
           Some nodeType \<Rightarrow> cost_at nodeType
         | None \<Rightarrow> cost_at ''default'')
      else
        (case map_of NodeCostPerHour instanceType of
           Some cost \<Rightarrow> cost
         | None \<Rightarrow> cost_at ''default''))"

definition extractInstanceType :: "string list \<Rightarrow> string \<Rightarrow> string" where
  "extractInstanceType ord nodeName =
     (case find (\<lambda>instanceType. Contains (ToLower nodeName) instanceType) ord of
        Some instanceType \<Rightarrow> instanceType
      | None \<Rightarrow> ''default'')"

definition estimatePodCost :: "Quantity \<Rightarrow> Quantity \<Rightarrow> real" where
  "estimatePodCost cpuRequest memRequest =
     (let cpuCost =
            fmul (fmul (fmul (fdiv (real_of_int (MilliValue cpuRequest)) 1000) 0.05) 24) 30;
          memCost =
            fmul (fmul (fmul (fdiv (real_of_int (Value memRequest)) (1024 * 1024 * 1024)) 0.01)
                    24) 30
      in fadd cpuCost memCost)"

section \<open>Recommendation rules\<close>

datatype panic = IndexOutOfRange

text \<open>Indexing a slice panics out of range.\<close>

definition index :: "'a list \<Rightarrow> nat \<Rightarrow> panic + 'a" where
  "index xs i = (if i < length xs then Inr (xs ! i) else Inl IndexOutOfRange)"

subsection \<open>Nodes\<close>

definition nodeCPUUtil :: "Node \<Rightarrow> NodeUsage \<Rightarrow> float64" where
  "nodeCPUUtil node metrics =
     float_scale
       (float_div (MilliValue (quantity (nu_Usage metrics) ResourceCPU))
                  (MilliValue (quantity (node_Capacity node) ResourceCPU))) 100"

definition nodeMemoryUtil :: "Node \<Rightarrow> NodeUsage \<Rightarrow> float64" where
  "nodeMemoryUtil node metrics =
     float_scale
       (float_div (Value (quantity (nu_Usage metrics) ResourceMemory))
                  (Value (quantity (node_Capacity node) ResourceMemory))) 100"

definition underutilizedNode ::
  "string list \<Rightarrow> Time \<Rightarrow> Node \<Rightarrow> float64 \<Rightarrow> float64 \<Rightarrow> Recommendation" where
  "underutilizedNode ord now node cpuUtil memoryUtil =
     \<lparr>Type = ''node_optimization'',
      Resource = node_Name node,
      Namespace = [],
      Description = NodeUnderutilized (node_Name node) cpuUtil memoryUtil,
      Impact = ''Consider consolidating workloads or downsizing'',
      Savings = fmul (fmul (fmul (calculateNodeCost ord (node_Name node) []) 24) 30) 0.7,
      Priority = ''medium'',
      Timestamp = now\<rparr>"

definition overutilizedNode :: "Time \<Rightarrow> Node \<Rightarrow> float64 \<Rightarrow> float64 \<Rightarrow> Recommendation" where
  "overutilizedNode now node cpuUtil memoryUtil =
     \<lparr>Type = ''node_scaling'',
      Resource = node_Name node,
      Namespace = [],
      Description = NodeOverutilized (node_Name node) cpuUtil memoryUtil,
      Impact = ''Consider scaling up or adding more nodes'',
      Savings = - 50,
      Priority = ''high'',
      Timestamp = now\<rparr>"

fun analyzeNodes_loop ::
  "string list \<Rightarrow> Time \<Rightarrow> NodeUsage list \<Rightarrow> Node list \<Rightarrow> Recommendation list
     \<Rightarrow> Recommendation list" where
  "analyzeNodes_loop ord now nodeMetrics [] recs = recs"
| "analyzeNodes_loop ord now nodeMetrics (node # nodes) recs =
     (case find (\<lambda>m. nu_Name m = node_Name node) nodeMetrics of
        None \<Rightarrow> analyzeNodes_loop ord now nodeMetrics nodes recs
      | Some metrics \<Rightarrow>
          (let cpuUtil = nodeCPUUtil node metrics;
               memoryUtil = nodeMemoryUtil node metrics;
               recs1 = (if float_less cpuUtil 20 \<and> float_less memoryUtil 30
                        then recs @ [underutilizedNode ord now node cpuUtil memoryUtil]
                        else recs);
               recs2 = (if float_greater cpuUtil 90 \<or> float_greater memoryUtil 90
                        then recs1 @ [overutilizedNode now node cpuUtil memoryUtil]
                        else recs1)
           in analyzeNodes_loop ord now nodeMetrics nodes recs2))"

definition analyzeNodes :: "string list \<Rightarrow> Time \<Rightarrow> Cluster \<Rightarrow> Recommendation list" where
  "analyzeNodes ord now cl =
     (case list_nodes cl of
        Inl err \<Rightarrow> []
      | Inr nodes \<Rightarrow>
          (case list_node_metrics cl of
             Inl err \<Rightarrow> []
           | Inr nodeMetrics \<Rightarrow> analyzeNodes_loop ord now nodeMetrics nodes []))"

subsection \<open>Pods\<close>

definition podResource :: "string \<Rightarrow> string \<Rightarrow> string" where
  "podResource ns name = ns @ ''/'' @ name"

definition cpuRightsizing :: "Time \<Rightarrow> Pod \<Rightarrow> Container \<Rightarrow> int \<Rightarrow> int \<Rightarrow> Recommendation" where
  "cpuRightsizing now pod container cpuRequest cpuUsage =
     \<lparr>Type = ''resource_rightsizing'',
      Resource = podResource (pod_Namespace pod) (pod_Name pod),
      Namespace = pod_Namespace pod,
      Description = CPUOverProvisioned (c_Name container) cpuRequest cpuUsage,
      Impact = ''Reduce CPU request to optimize resource allocation'',
      Savings = 15,
      Priority = ''low'',
      Timestamp = now\<rparr>"

definition memoryRightsizing ::
  "Time \<Rightarrow> Pod \<Rightarrow> Container \<Rightarrow> Quantity \<Rightarrow> Quantity \<Rightarrow> Recommendation" where
  "memoryRightsizing now pod container memRequest memUsage =
     \<lparr>Type = ''resource_rightsizing'',
      Resource = podResource (pod_Namespace pod) (pod_Name pod),
      Namespace = pod_Namespace pod,
      Description = MemoryOverProvisioned (c_Name container) memRequest memUsage,
      Impact = ''Reduce memory request to optimize resource allocation'',
      Savings = 10,
      Priority = ''low'',
      Timestamp = now\<rparr>"

definition checkCPU ::
  "Time \<Rightarrow> Pod \<Rightarrow> Container \<Rightarrow> ContainerUsage \<Rightarrow> Recommendation list \<Rightarrow> Recommendation list" where
  "checkCPU now pod container containerMetrics recs =
     (case c_Requests container of
        None \<Rightarrow> recs
      | Some requests \<Rightarrow>
          (let cpuRequest = quantity requests ResourceCPU;
               cpuUsage = quantity (cu_Usage containerMetrics) ResourceCPU
           in if 0 < MilliValue cpuRequest
                 \<and> MilliValue cpuUsage < go_div (MilliValue cpuRequest) 2
              then recs @ [cpuRightsizing now pod container
                             (MilliValue cpuRequest) (MilliValue cpuUsage)]
              else recs))"

definition checkMemory ::
  "Time \<Rightarrow> Pod \<Rightarrow> Container \<Rightarrow> ContainerUsage \<Rightarrow> Recommendation list \<Rightarrow> Recommendation list" where
  "checkMemory now pod container containerMetrics recs =
     (case c_Requests container of
        None \<Rightarrow> recs
      | Some requests \<Rightarrow>
          (let memRequest = quantity requests ResourceMemory;
               memUsage = quantity (cu_Usage containerMetrics) ResourceMemory
           in if 0 < Value memRequest \<and> Value memUsage < go_div (Value memRequest) 2
              then recs @ [memoryRightsizing now pod container memRequest memUsage]
              else recs))"

text \<open>The loop over \<^verbatim>\<open>pod.Spec.Containers\<close>, with its index \<open>i\<close>.\<close>

fun analyzeContainers ::
  "Time \<Rightarrow> Pod \<Rightarrow> ContainerUsage list \<Rightarrow> nat \<Rightarrow> Container list \<Rightarrow> Recommendation list
     \<Rightarrow> panic + Recommendation list" where
  "analyzeContainers now pod ms i [] recs = Inr recs"
| "analyzeContainers now pod ms i (container # containers) recs =
     (if length ms \<le> i then analyzeContainers now pod ms (i + 1) containers recs
      else
        (case index ms i of
           Inl p \<Rightarrow> Inl p
         | Inr containerMetrics \<Rightarrow>
             analyzeContainers now pod ms (i + 1) containers
               (checkMemory now pod container containerMetrics
                  (checkCPU now pod container containerMetrics recs))))"

fun analyzePods_loop ::
  "Time \<Rightarrow> PodUsage list \<Rightarrow> Pod list \<Rightarrow> Recommendation list \<Rightarrow> panic + Recommendation list" where
  "analyzePods_loop now podMetrics [] recs = Inr recs"
| "analyzePods_loop now podMetrics (pod # pods) recs =
     (if pod_Phase pod \<noteq> PodRunning then analyzePods_loop now podMetrics pods recs
      else
        (case find (\<lambda>m. pu_Name m = pod_Name pod \<and> pu_Namespace m = pod_Namespace pod)
                podMetrics of
           None \<Rightarrow> analyzePods_loop now podMetrics pods recs
         | Some metrics \<Rightarrow>
             (case analyzeContainers now pod (pu_Containers metrics) 0
                     (pod_Containers pod) recs of
                Inl p \<Rightarrow> Inl p
              | Inr recs' \<Rightarrow> analyzePods_loop now podMetrics pods recs')))"

definition analyzePods :: "Time \<Rightarrow> Cluster \<Rightarrow> panic + Recommendation list" where
  "analyzePods now cl =
     (case list_pods cl of
        Inl err \<Rightarrow> Inr []
      | Inr pods \<Rightarrow>
          (case list_pod_metrics cl of
             Inl err \<Rightarrow> Inr []
           | Inr podMetrics \<Rightarrow> analyzePods_loop now podMetrics pods []))"

subsection \<open>Deployments\<close>

definition deploymentResource :: "Deployment \<Rightarrow> string" where
  "deploymentResource d = dep_Namespace d @ ''/'' @ dep_Name d"

definition horizontalScaling :: "Time \<Rightarrow> Deployment \<Rightarrow> Recommendation" where
  "horizontalScaling now d =
     \<lparr>Type = ''horizontal_scaling'',
      Resource = deploymentResource d,
      Namespace = dep_Namespace d,
      Description = DeploymentAutoScaling (dep_Name d),
      Impact = ''Implement HPA to scale based on CPU/memory usage'',
      Savings = 25,
      Priority = ''medium'',
      Timestamp = now\<rparr>"

definition resourceGovernance :: "Time \<Rightarrow> Deployment \<Rightarrow> Recommendation" where
  "resourceGovernance now d =
     \<lparr>Type = ''resource_governance'',
      Resource = deploymentResource d,
      Namespace = dep_Namespace d,
      Description = DeploymentLacksResources (dep_Name d),
      Impact = ''Add resource requests and limits for better scheduling and cost control'',
      Savings = 20,
      Priority = ''medium'',
      Timestamp = now\<rparr>"

definition hasResources :: "Deployment \<Rightarrow> bool" where
  "hasResources d =
     list_ex (\<lambda>container. c_Requests container \<noteq> None \<or> c_Limits container \<noteq> None)
       (dep_Containers d)"

fun analyzeDeployments_loop ::
  "Time \<Rightarrow> Deployment list \<Rightarrow> Recommendation list \<Rightarrow> Recommendation list" where
  "analyzeDeployments_loop now [] recs = recs"
| "analyzeDeployments_loop now (d # ds) recs =
     (let recs1 = (if 1 < dep_Replicas d then recs @ [horizontalScaling now d] else recs);
          recs2 = (if \<not> hasResources d then recs1 @ [resourceGovernance now d] else recs1)
      in analyzeDeployments_loop now ds recs2)"

definition analyzeDeployments :: "Time \<Rightarrow> Cluster \<Rightarrow> Recommendation list" where
  "analyzeDeployments now cl =
     (case list_deployments cl of
        Inl err \<Rightarrow> []
      | Inr deployments \<Rightarrow> analyzeDeployments_loop now deployments [])"

section \<open>The analysis cycle\<close>

text \<open>One cycle: the three analyses in turn, then the assignment that publishes the
  list. A panic anywhere ends the process.\<close>

definition analyzeAndGenerateRecommendations ::
  "string list \<Rightarrow> Time \<Rightarrow> Cluster \<Rightarrow> CostOptimizer \<Rightarrow> panic + CostOptimizer" where
  "analyzeAndGenerateRecommendations ord now cl co =
     (let nodeRecommendations = analyzeNodes ord now cl in
      case analyzePods now cl of
        Inl p \<Rightarrow> Inl p
      | Inr podRecommendations \<Rightarrow>
          (let deploymentRecommendations = analyzeDeployments now cl in
           Inr (co\<lparr>recommendations :=
                  ([] @ nodeRecommendations) @ podRecommendations
                    @ deploymentRecommendations\<rparr>)))"

text \<open>\<^verbatim>\<open>StartMonitoring\<close> loops for ever: a cycle, then a wait for the ticker. The run of
  its first \<open>n\<close> cycles, the \<open>k\<close>-th at time \<open>clock k\<close> on the answers \<open>env k\<close> of the
  cluster: the loop goes on to the next cycle unless the cycle panicked.\<close>

fun StartMonitoring ::
  "string list \<Rightarrow> (nat \<Rightarrow> Time) \<Rightarrow> (nat \<Rightarrow> Cluster) \<Rightarrow> nat \<Rightarrow> nat \<Rightarrow> CostOptimizer
     \<Rightarrow> panic + CostOptimizer" where
  "StartMonitoring ord clock env k 0 co = Inr co"
| "StartMonitoring ord clock env k (Suc n) co =
     (case analyzeAndGenerateRecommendations ord (clock k) (env k) co of
        Inl p \<Rightarrow> Inl p
      | Inr co' \<Rightarrow> StartMonitoring ord clock env (k + 1) n co')"

section \<open>Metrics and cost summary\<close>

fun getNodeMetrics_loop ::
  "string list \<Rightarrow> NodeUsage list \<Rightarrow> Node list \<Rightarrow> NodeMetrics list \<Rightarrow> NodeMetrics list" where
  "getNodeMetrics_loop ord nodeMetricsList [] metrics = metrics"
| "getNodeMetrics_loop ord nodeMetricsList (node # nodes) metrics =
     (case find (\<lambda>m. nu_Name m = node_Name node) nodeMetricsList of
        None \<Rightarrow> getNodeMetrics_loop ord nodeMetricsList nodes metrics
      | Some nodeMetrics \<Rightarrow>
          (let cpuCapacity = quantity (node_Capacity node) ResourceCPU;
               memoryCapacity = quantity (node_Capacity node) ResourceMemory;
               cpuUsage = quantity (nu_Usage nodeMetrics) ResourceCPU;
               memoryUsage = quantity (nu_Usage nodeMetrics) ResourceMemory;
               cpuUtil = nodeCPUUtil node nodeMetrics;
               memoryUtil = nodeMemoryUtil node nodeMetrics;
               instanceType = extractInstanceType ord (node_Name node);
               hourlyCost = calculateNodeCost ord (node_Name node) instanceType
           in getNodeMetrics_loop ord nodeMetricsList nodes
                (metrics @
                 [\<lparr>nm_Name = node_Name node,
                   nm_CPUUsage = fdiv (real_of_int (MilliValue cpuUsage)) 1000,
                   nm_MemoryUsage =
                     fdiv (real_of_int (Value memoryUsage)) (1024 * 1024 * 1024),
                   nm_CPUCapacity = fdiv (real_of_int (MilliValue cpuCapacity)) 1000,
                   nm_MemoryCapacity =
                     fdiv (real_of_int (Value memoryCapacity)) (1024 * 1024 * 1024),
                   nm_CPUUtilization = cpuUtil,
                   nm_MemoryUtilization = memoryUtil,
                   nm_EstimatedCost = fmul (fmul hourlyCost 24) 30,
                   nm_InstanceType = instanceType\<rparr>])))"

definition getNodeMetrics :: "string list \<Rightarrow> Cluster \<Rightarrow> NodeMetrics list" where
  "getNodeMetrics ord cl =
     (case list_nodes cl of
        Inl err \<Rightarrow> []
      | Inr nodes \<Rightarrow>
          (case list_node_metrics cl of
             Inl err \<Rightarrow> []
           | Inr nodeMetricsList \<Rightarrow> getNodeMetrics_loop ord nodeMetricsList nodes []))"

text \<open>The sums of \<^verbatim>\<open>getPodMetrics\<close>: \<^verbatim>\<open>Add\<close> on quantities, a zero request or limit
  left out.\<close>

definition totalUsage :: "ResourceName \<Rightarrow> ContainerUsage list \<Rightarrow> Quantity" where
  "totalUsage r ms = foldl (\<lambda>sum_sofar m. sum_sofar + quantity (cu_Usage m) r) 0 ms"

definition addNonZero :: "ResourceName \<Rightarrow> ResourceList option \<Rightarrow> Quantity \<Rightarrow> Quantity" where
  "addNonZero r rl sum_sofar =
     (case rl of
        None \<Rightarrow> sum_sofar
      | Some l \<Rightarrow> (if \<not> IsZero (quantity l r) then sum_sofar + quantity l r else sum_sofar))"

definition totalRequest :: "ResourceName \<Rightarrow> Container list \<Rightarrow> Quantity" where
  "totalRequest r cs = foldl (\<lambda>sum_sofar c. addNonZero r (c_Requests c) sum_sofar) 0 cs"

definition totalLimit :: "ResourceName \<Rightarrow> Container list \<Rightarrow> Quantity" where
  "totalLimit r cs = foldl (\<lambda>sum_sofar c. addNonZero r (c_Limits c) sum_sofar) 0 cs"

definition podRecord :: "Pod \<Rightarrow> PodUsage \<Rightarrow> PodMetrics" where
  "podRecord pod podMetrics =
     (let totalCPUUsage = totalUsage ResourceCPU (pu_Containers podMetrics);
          totalMemUsage = totalUsage ResourceMemory (pu_Containers podMetrics);
          totalCPURequest = totalRequest ResourceCPU (pod_Containers pod);
          totalMemRequest = totalRequest ResourceMemory (pod_Containers pod);
          totalCPULimit = totalLimit ResourceCPU (pod_Containers pod);
          totalMemLimit = totalLimit ResourceMemory (pod_Containers pod);
          estimatedCost = estimatePodCost totalCPURequest totalMemRequest
      in \<lparr>pm_Name = pod_Name pod,
          pm_Namespace = pod_Namespace pod,
          pm_CPUUsage = fdiv (real_of_int (MilliValue totalCPUUsage)) 1000,
          pm_MemoryUsage = fdiv (real_of_int (Value totalMemUsage)) (1024 * 1024 * 1024),
          pm_CPURequest = fdiv (real_of_int (MilliValue totalCPURequest)) 1000,
          pm_MemoryRequest = fdiv (real_of_int (Value totalMemRequest)) (1024 * 1024 * 1024),
          pm_CPULimit = fdiv (real_of_int (MilliValue totalCPULimit)) 1000,
          pm_MemoryLimit = fdiv (real_of_int (Value totalMemLimit)) (1024 * 1024 * 1024),
          pm_EstimatedCost = estimatedCost\<rparr>)"

fun getPodMetrics_loop :: "PodUsage list \<Rightarrow> Pod list \<Rightarrow> PodMetrics list \<Rightarrow> PodMetrics list" where
  "getPodMetrics_loop podMetricsList [] metrics = metrics"
| "getPodMetrics_loop podMetricsList (pod # pods) metrics =
     (if pod_Phase pod \<noteq> PodRunning then getPodMetrics_loop podMetricsList pods metrics
      else
        (case find (\<lambda>m. pu_Name m = pod_Name pod \<and> pu_Namespace m = pod_Namespace pod)
                podMetricsList of
           None \<Rightarrow> getPodMetrics_loop podMetricsList pods metrics
         | Some podMetrics \<Rightarrow>
             getPodMetrics_loop podMetricsList pods (metrics @ [podRecord pod podMetrics])))"

definition getPodMetrics :: "Cluster \<Rightarrow> PodMetrics list" where
  "getPodMetrics cl =
     (case list_pods cl of
        Inl err \<Rightarrow> []
      | Inr pods \<Rightarrow>
          (case list_pod_metrics cl of
             Inl err \<Rightarrow> []
           | Inr podMetricsList \<Rightarrow> getPodMetrics_loop podMetricsList pods []))"

text \<open>\<^verbatim>\<open>namespaceCosts[pod.Namespace] += pod.EstimatedCost\<close>: a namespace not yet in the
  map reads as zero.\<close>

definition addNamespaceCost :: "(string \<rightharpoonup> real) \<Rightarrow> PodMetrics \<Rightarrow> (string \<rightharpoonup> real)" where
  "addNamespaceCost m pod =
     m(pm_Namespace pod \<mapsto>
         fadd (case m (pm_Namespace pod) of None \<Rightarrow> 0 | Some c \<Rightarrow> c)
           (pm_EstimatedCost pod))"

definition namespaceCosts :: "PodMetrics list \<Rightarrow> (string \<rightharpoonup> real)" where
  "namespaceCosts podMetrics = foldl addNamespaceCost Map.empty podMetrics"

definition addWaste :: "real \<Rightarrow> NodeMetrics \<Rightarrow> real" where
  "addWaste wasted node =
     (if float_less (nm_CPUUtilization node) 50 \<or> float_less (nm_MemoryUtilization node) 50
      then fadd wasted (fmul (nm_EstimatedCost node) 0.3) else wasted)"

text \<open>The summary is computed when it is asked for: \<open>cl\<close> holds the answers of the
  cluster to the calls of this query. The function reads \<^verbatim>\<open>co.recommendations\<close> twice,
  with no lock: \<open>co\<close> is the optimizer as the loop over the savings finds it, \<open>co'\<close> the
  optimizer as the count finds it after the loop. They are one and the same unless a
  cycle stores its list in between.\<close>

definition generateCostSummary ::
  "string list \<Rightarrow> Time \<Rightarrow> CostOptimizer \<Rightarrow> CostOptimizer \<Rightarrow> Cluster \<Rightarrow> ClusterCostSummary"
  where
  "generateCostSummary ord now co co' cl =
     (let nodeMetrics = getNodeMetrics ord cl;
          podMetrics = getPodMetrics cl;
          totalComputeCost =
            foldl (\<lambda>sum_sofar node. fadd sum_sofar (nm_EstimatedCost node)) 0 nodeMetrics;
          wastedResources = foldl addWaste 0 nodeMetrics;
          totalStorageCost = 100;
          potentialSavings =
            foldl (\<lambda>sum_sofar r. fadd sum_sofar (Savings r)) 0 (recommendations co)
      in \<lparr>TotalMonthlyCost = fadd totalComputeCost totalStorageCost,
          ComputeCost = totalComputeCost,
          StorageCost = totalStorageCost,
          WastedResources = wastedResources,
          PotentialSavings = potentialSavings,
          NodeCount = length nodeMetrics,
          PodCount = length podMetrics,
          NamespaceCosts = namespaceCosts podMetrics,
          RecommendationCount = length (recommendations co'),
          LastUpdated = now\<rparr>)"

section \<open>Handlers\<close>

definition handleRecommendations :: "CostOptimizer \<Rightarrow> Recommendation list" where
  "handleRecommendations co = recommendations co"

definition handleCostSummary ::
  "string list \<Rightarrow> Time \<Rightarrow> CostOptimizer \<Rightarrow> CostOptimizer \<Rightarrow> Cluster \<Rightarrow> ClusterCostSummary"
  where
  "handleCostSummary ord now co co' cl = generateCostSummary ord now co co' cl"

definition handleActions :: "CostOptimizer \<Rightarrow> Time \<Rightarrow> OptimizationAction list" where
  "handleActions co now =
     [\<lparr>act_ID = ''1'',
       act_Type = ''scale_down'',
       act_Resource = ''default/nginx-deployment'',
       act_Namespace = ''default'',
       act_Action = ''Scale deployment to 1 replica'',
       act_Parameters = [(''replicas'', 1)],
       act_Status = ''pending'',
       act_CreatedAt = now,
       act_ExecutedAt = None\<rparr>]"

text \<open>The handler logs the id and answers; it returns the optimizer as it found it, with
  the fields of its answer.\<close>

definition handleExecuteAction ::
  "CostOptimizer \<Rightarrow> string \<Rightarrow> CostOptimizer \<times> (string \<times> string) list" where
  "handleExecuteAction co actionID =
     (co, [(''status'', ''executed''),
           (''action_id'', actionID),
           (''message'', ''Optimization action executed successfully'')])"

section \<open>Concurrent cycles\<close>

text \<open>
  The process as a transition system whose steps are the starts and the ends of cycles.
  A cycle in flight is a goroutine inside \<^verbatim>\<open>analyzeAndGenerateRecommendations\<close>: it
  builds its list in a local variable, from the answers \<open>cy_cluster\<close> it gets from the
  cluster, and stores the list in the optimizer with its last assignment.
  \<^item> \<open>MonitorCycle\<close>: the loop of \<^verbatim>\<open>StartMonitoring\<close> enters a cycle. The loop is
    sequential, so it does so only when its previous cycle has ended.
  \<^item> \<open>HandleOptimize\<close>: a request to \<^verbatim>\<open>/api/optimize\<close>; the handler starts a goroutine
    for a cycle and answers.
  \<^item> \<open>CycleDone i\<close>: the \<open>i\<close>-th cycle in flight ends.
\<close>

datatype origin = Timer | OnDemand

record Cycle =
  cy_origin :: origin
  cy_now :: Time
  cy_cluster :: Cluster

record Process =
  optimizer :: CostOptimizer
  in_flight :: "Cycle list"
  crashed :: bool

datatype event = MonitorCycle Time Cluster | HandleOptimize Time Cluster | CycleDone nat

definition initial :: Process where
  "initial = \<lparr>optimizer = \<lparr>recommendations = []\<rparr>, in_flight = [], crashed = False\<rparr>"

fun step :: "string list \<Rightarrow> Process \<Rightarrow> event \<Rightarrow> Process" where
  "step ord s (MonitorCycle now cl) =
     (if crashed s \<or> list_ex (\<lambda>c. cy_origin c = Timer) (in_flight s) then s
      else s\<lparr>in_flight := in_flight s @ [\<lparr>cy_origin = Timer, cy_now = now, cy_cluster = cl\<rparr>]\<rparr>)"
| "step ord s (HandleOptimize now cl) =
     (if crashed s then s
      else s\<lparr>in_flight :=
               in_flight s @ [\<lparr>cy_origin = OnDemand, cy_now = now, cy_cluster = cl\<rparr>]\<rparr>)"
| "step ord s (CycleDone i) =
     (if crashed s \<or> length (in_flight s) \<le> i then s
      else
        (let c = in_flight s ! i in
         case analyzeAndGenerateRecommendations ord (cy_now c) (cy_cluster c) (optimizer s) of
           Inl p \<Rightarrow> s\<lparr>crashed := True\<rparr>
         | Inr co \<Rightarrow>
             s\<lparr>optimizer := co, in_flight := take i (in_flight s) @ drop (Suc i) (in_flight s)\<rparr>))"

definition run :: "string list \<Rightarrow> event list \<Rightarrow> Process" where
  "run ord evs = foldl (step ord) initial evs"

section \<open>The pod rules restated\<close>

text \<open>The pairing of containers and usage entries, and the selection of the
  recommendations of one container, as the properties below state them.\<close>

text \<open>What one container adds to the list, from the usage sample it is paired with.\<close>

definition containerRecs :: "Time \<Rightarrow> Pod \<Rightarrow> Container \<Rightarrow> ContainerUsage \<Rightarrow> Recommendation list" where
  "containerRecs now pod container containerMetrics =
     checkMemory now pod container containerMetrics
       (checkCPU now pod container containerMetrics [])"

text \<open>What one pod adds to the list: nothing unless it is running and has a usage sample;
  otherwise its \<open>i\<close>-th container is paired with the \<open>i\<close>-th entry of the sample, for
  every \<open>i\<close> below both lengths.\<close>

definition podRecs :: "Time \<Rightarrow> PodUsage list \<Rightarrow> Pod \<Rightarrow> Recommendation list" where
  "podRecs now podMetrics pod =
     (if pod_Phase pod = PodRunning then
        (case find (\<lambda>m. pu_Name m = pod_Name pod \<and> pu_Namespace m = pod_Namespace pod)
                podMetrics of
           None \<Rightarrow> []
         | Some metrics \<Rightarrow>
             concat (map (\<lambda>i. containerRecs now pod (pod_Containers pod ! i)
                                 (pu_Containers metrics ! i))
                       [0..<min (length (pod_Containers pod)) (length (pu_Containers metrics))]))
      else [])"

text \<open>The request of a container for a resource: zero when it has none.\<close>

definition containerRequest :: "Container \<Rightarrow> ResourceName \<Rightarrow> Quantity" where
  "containerRequest c r = (case c_Requests c of None \<Rightarrow> 0 | Some requests \<Rightarrow> quantity requests r)"

text \<open>The recommendations about the CPU, or the memory, of one container of one pod.\<close>

definition isCPURightsizingOf :: "Pod \<Rightarrow> Container \<Rightarrow> Recommendation \<Rightarrow> bool" where
  "isCPURightsizingOf pod c r =
     (Type r = ''resource_rightsizing'' \<and> Namespace r = pod_Namespace pod
      \<and> Resource r = podResource (pod_Namespace pod) (pod_Name pod)
      \<and> (case Description r of CPUOverProvisioned n a b \<Rightarrow> n = c_Name c | _ \<Rightarrow> False))"

definition isMemoryRightsizingOf :: "Pod \<Rightarrow> Container \<Rightarrow> Recommendation \<Rightarrow> bool" where
  "isMemoryRightsizingOf pod c r =
     (Type r = ''resource_rightsizing'' \<and> Namespace r = pod_Namespace pod
      \<and> Resource r = podResource (pod_Namespace pod) (pod_Name pod)
      \<and> (case Description r of MemoryOverProvisioned n a b \<Rightarrow> n = c_Name c | _ \<Rightarrow> False))"

text \<open>The pods that \<open>getPodMetrics\<close> reports: the running pods that have a usage
  sample.\<close>

definition reportedPods :: "PodUsage list \<Rightarrow> Pod list \<Rightarrow> Pod list" where
  "reportedPods podMetricsList pods =
     filter (\<lambda>pod. pod_Phase pod = PodRunning
                  \<and> find (\<lambda>m. pu_Name m = pod_Name pod \<and> pu_Namespace m = pod_Namespace pod)
                        podMetricsList \<noteq> None) pods"

text \<open>The usage sample of a pod with the names of its entries changed by \<open>f\<close>.\<close>

definition renameUsage :: "(string \<Rightarrow> string) \<Rightarrow> PodUsage \<Rightarrow> PodUsage" where
  "renameUsage f pu = pu\<lparr>pu_Containers := map (\<lambda>m. m\<lparr>cu_Name := f (cu_Name m)\<rparr>) (pu_Containers pu)\<rparr>"

section \<open>Scenarios\<close>

text \<open>Concrete clusters on which the properties below are evaluated.\<close>

definition table_order :: "string list" where
  "table_order = map fst NodeCostPerHour"

text \<open>A node of type t3.large: 150m of 2 CPUs and 500Mi of 8Gi in use.\<close>

definition scenario_A_node :: Node where
  "scenario_A_node =
     \<lparr>node_Name = ''ip-10-0-1-23.t3.large'',
      node_Capacity = [ResourceCPU \<mapsto> 2, ResourceMemory \<mapsto> 8589934592]\<rparr>"

definition scenario_A_usage :: NodeUsage where
  "scenario_A_usage =
     \<lparr>nu_Name = ''ip-10-0-1-23.t3.large'',
      nu_Usage = [ResourceCPU \<mapsto> 150 / 1000, ResourceMemory \<mapsto> 524288000]\<rparr>"

definition scenario_A :: Cluster where
  "scenario_A =
     \<lparr>list_nodes = Inr [scenario_A_node],
      list_node_metrics = Inr [scenario_A_usage],
      list_pods = Inr [],
      list_pod_metrics = Inr [],
      list_deployments = Inr []\<rparr>"

text \<open>The same node under a name that contains two labels of the price table, default and
  t3.large.\<close>

definition default_pool_node :: Node where
  "default_pool_node =
     \<lparr>node_Name = ''default-pool-t3.large'',
      node_Capacity = [ResourceCPU \<mapsto> 2, ResourceMemory \<mapsto> 8589934592]\<rparr>"

definition default_pool_usage :: NodeUsage where
  "default_pool_usage =
     \<lparr>nu_Name = ''default-pool-t3.large'',
      nu_Usage = [ResourceCPU \<mapsto> 150 / 1000, ResourceMemory \<mapsto> 524288000]\<rparr>"

definition default_pool_cluster :: Cluster where
  "default_pool_cluster =
     \<lparr>list_nodes = Inr [default_pool_node],
      list_node_metrics = Inr [default_pool_usage],
      list_pods = Inr [],
      list_pod_metrics = Inr [],
      list_deployments = Inr []\<rparr>"

text \<open>A container that requests 500m of CPU and uses 150m.\<close>

definition scenario_B_container :: Container where
  "scenario_B_container =
     \<lparr>c_Name = ''app'', c_Requests = Some [ResourceCPU \<mapsto> 500 / 1000], c_Limits = None\<rparr>"

definition scenario_B_pod :: Pod where
  "scenario_B_pod =
     \<lparr>pod_Name = ''web'', pod_Namespace = ''default'', pod_Phase = PodRunning,
      pod_Containers = [scenario_B_container]\<rparr>"

definition scenario_B_usage :: PodUsage where
  "scenario_B_usage =
     \<lparr>pu_Name = ''web'', pu_Namespace = ''default'',
      pu_Containers =
        [\<lparr>cu_Name = ''app'',
          cu_Usage = [ResourceCPU \<mapsto> 150 / 1000, ResourceMemory \<mapsto> 104857600]\<rparr>]\<rparr>"

definition scenario_B :: Cluster where
  "scenario_B =
     \<lparr>list_nodes = Inr [],
      list_node_metrics = Inr [],
      list_pods = Inr [scenario_B_pod],
      list_pod_metrics = Inr [scenario_B_usage],
      list_deployments = Inr []\<rparr>"

text \<open>A container that requests 501m of CPU and uses 250m.\<close>

definition odd_request_container :: Container where
  "odd_request_container =
     \<lparr>c_Name = ''app'', c_Requests = Some [ResourceCPU \<mapsto> 501 / 1000], c_Limits = None\<rparr>"

definition odd_request_usage :: ContainerUsage where
  "odd_request_usage = \<lparr>cu_Name = ''app'', cu_Usage = [ResourceCPU \<mapsto> 250 / 1000]\<rparr>"

definition odd_request_cluster :: Cluster where
  "odd_request_cluster =
     \<lparr>list_nodes = Inr [],
      list_node_metrics = Inr [],
      list_pods = Inr [\<lparr>pod_Name = ''web'', pod_Namespace = ''default'', pod_Phase = PodRunning,
                        pod_Containers = [odd_request_container]\<rparr>],
      list_pod_metrics = Inr [\<lparr>pu_Name = ''web'', pu_Namespace = ''default'',
                               pu_Containers = [odd_request_usage]\<rparr>],
      list_deployments = Inr []\<rparr>"

text \<open>A pod with the containers app and sidecar, and a usage sample with one entry,
  named sidecar.\<close>

definition positional_pod :: Pod where
  "positional_pod =
     \<lparr>pod_Name = ''web'', pod_Namespace = ''default'', pod_Phase = PodRunning,
      pod_Containers =
        [\<lparr>c_Name = ''app'', c_Requests = Some [ResourceCPU \<mapsto> 500 / 1000], c_Limits = None\<rparr>,
         \<lparr>c_Name = ''sidecar'', c_Requests = Some [ResourceCPU \<mapsto> 1], c_Limits = None\<rparr>]\<rparr>"

definition positional_usage :: PodUsage where
  "positional_usage =
     \<lparr>pu_Name = ''web'', pu_Namespace = ''default'',
      pu_Containers = [\<lparr>cu_Name = ''sidecar'', cu_Usage = [ResourceCPU \<mapsto> 100 / 1000]\<rparr>]\<rparr>"

definition positional_cluster :: Cluster where
  "positional_cluster =
     \<lparr>list_nodes = Inr [],
      list_node_metrics = Inr [],
      list_pods = Inr [positional_pod],
      list_pod_metrics = Inr [positional_usage],
      list_deployments = Inr []\<rparr>"

text \<open>A node with no memory capacity, in two states: 500Mi of memory in use, and none.\<close>

definition zero_memory_node :: Node where
  "zero_memory_node =
     \<lparr>node_Name = ''ip-10-0-1-23.t3.large'',
      node_Capacity = [ResourceCPU \<mapsto> 2, ResourceMemory \<mapsto> 0]\<rparr>"

definition zero_memory_cluster :: Cluster where
  "zero_memory_cluster =
     \<lparr>list_nodes = Inr [zero_memory_node],
      list_node_metrics = Inr [scenario_A_usage],
      list_pods = Inr [],
      list_pod_metrics = Inr [],
      list_deployments = Inr []\<rparr>"

definition idle_usage :: NodeUsage where
  "idle_usage =
     \<lparr>nu_Name = ''ip-10-0-1-23.t3.large'',
      nu_Usage = [ResourceCPU \<mapsto> 150 / 1000, ResourceMemory \<mapsto> 0]\<rparr>"

definition zero_memory_idle_cluster :: Cluster where
  "zero_memory_idle_cluster =
     \<lparr>list_nodes = Inr [zero_memory_node],
      list_node_metrics = Inr [idle_usage],
      list_pods = Inr [],
      list_pod_metrics = Inr [],
      list_deployments = Inr []\<rparr>"

text \<open>A cycle in which the listing of the pods fails: the node of scenario A and a
  deployment with three replicas are still looked at.\<close>

definition failing_pods_cluster :: Cluster where
  "failing_pods_cluster =
     \<lparr>list_nodes = Inr [scenario_A_node],
      list_node_metrics = Inr [scenario_A_usage],
      list_pods = Inl ProviderUnavailable,
      list_pod_metrics = Inr [scenario_B_usage],
      list_deployments =
        Inr [\<lparr>dep_Name = ''api'', dep_Namespace = ''default'', dep_Replicas = 3,
              dep_Containers = [scenario_B_container]\<rparr>]\<rparr>"

text \<open>Four pods: web and db, running in namespace default, with usage samples and
  requests of 500m, and of one CPU and 1Gi; dns, running in kube-system, for which the
  metrics API has no sample; job, in batch, which has a sample and has succeeded.\<close>

definition web_pod :: Pod where
  "web_pod =
     \<lparr>pod_Name = ''web'', pod_Namespace = ''default'', pod_Phase = PodRunning,
      pod_Containers = [scenario_B_container]\<rparr>"

definition dns_pod :: Pod where
  "dns_pod =
     \<lparr>pod_Name = ''dns'', pod_Namespace = ''kube-system'', pod_Phase = PodRunning,
      pod_Containers = [scenario_B_container]\<rparr>"

definition db_pod :: Pod where
  "db_pod =
     \<lparr>pod_Name = ''db'', pod_Namespace = ''default'', pod_Phase = PodRunning,
      pod_Containers =
        [\<lparr>c_Name = ''postgres'',
          c_Requests = Some [ResourceCPU \<mapsto> 1, ResourceMemory \<mapsto> 1073741824],
          c_Limits = None\<rparr>]\<rparr>"

definition job_pod :: Pod where
  "job_pod =
     \<lparr>pod_Name = ''job'', pod_Namespace = ''batch'', pod_Phase = PodSucceeded,
      pod_Containers = [scenario_B_container]\<rparr>"

definition namespace_usages :: "PodUsage list" where
  "namespace_usages =
     [scenario_B_usage,
      \<lparr>pu_Name = ''job'', pu_Namespace = ''batch'', pu_Containers = []\<rparr>,
      \<lparr>pu_Name = ''db'', pu_Namespace = ''default'', pu_Containers = []\<rparr>]"

definition namespace_cluster :: Cluster where
  "namespace_cluster =
     \<lparr>list_nodes = Inr [],
      list_node_metrics = Inr [],
      list_pods = Inr [web_pod, dns_pod, job_pod, db_pod],
      list_pod_metrics = Inr namespace_usages,
      list_deployments = Inr []\<rparr>"

text \<open>Three running pods with usage samples: two in namespace a, with requests of 100m
  and 500m, and between them one in namespace b, with a request of 100m.\<close>

definition small_container :: Container where
  "small_container =
     \<lparr>c_Name = ''app'', c_Requests = Some [ResourceCPU \<mapsto> 100 / 1000], c_Limits = None\<rparr>"

definition rounding_cluster :: Cluster where
  "rounding_cluster =
     \<lparr>list_nodes = Inr [],
      list_node_metrics = Inr [],
      list_pods =
        Inr [\<lparr>pod_Name = ''p1'', pod_Namespace = ''a'', pod_Phase = PodRunning,
              pod_Containers = [small_container]\<rparr>,
             \<lparr>pod_Name = ''p2'', pod_Namespace = ''b'', pod_Phase = PodRunning,
              pod_Containers = [small_container]\<rparr>,
             \<lparr>pod_Name = ''p3'', pod_Namespace = ''a'', pod_Phase = PodRunning,
              pod_Containers = [scenario_B_container]\<rparr>],
      list_pod_metrics =
        Inr [\<lparr>pu_Name = ''p1'', pu_Namespace = ''a'', pu_Containers = []\<rparr>,
             \<lparr>pu_Name = ''p2'', pu_Namespace = ''b'', pu_Containers = []\<rparr>,
             \<lparr>pu_Name = ''p3'', pu_Namespace = ''a'', pu_Containers = []\<rparr>],
      list_deployments = Inr []\<rparr>"

text \<open>A cluster with nothing in it, and the optimizer after a cycle on scenario A: the
  savings are the float 41.93279999999999.\<close>

definition empty_cluster :: Cluster where
  "empty_cluster =
     \<lparr>list_nodes = Inr [],
      list_node_metrics = Inr [],
      list_pods = Inr [],
      list_pod_metrics = Inr [],
      list_deployments = Inr []\<rparr>"

definition scenario_A_result :: CostOptimizer where
  "scenario_A_result =
     \<lparr>recommendations =
        [\<lparr>Type = ''node_optimization'',
          Resource = ''ip-10-0-1-23.t3.large'',
          Namespace = [],
          Description =
            NodeUnderutilized ''ip-10-0-1-23.t3.large'' (Fin 7.5) (Fin 6.103515625),
          Impact = ''Consider consolidating workloads or downsizing'',
          Savings = 5901516951706297 / 140737488355328,
          Priority = ''medium'',
          Timestamp = 0\<rparr>]\<rparr>"

section \<open>Evaluation of floats\<close>

lemma bit_length_eval:
  "bit_length 0 = 0"
  "bit_length (Suc 0) = 1"
  "bit_length (numeral k) = Suc (bit_length (numeral k div 2))"
  by (simp_all add: bit_length.simps[of 0] bit_length.simps[of "Suc 0"]
      bit_length.simps[of "numeral k"])

lemmas float_eval =
  fadd_def fmul_def fdiv_def round64_def ilog2_def pow2_def round_even_def Let_def
  bit_length_eval

section \<open>Orders of the price table\<close>

lemma table_keys:
  "set (map fst NodeCostPerHour) =
     {''t3.micro'', ''t3.small'', ''t3.medium'', ''t3.large'', ''t3.xlarge'', ''t3.2xlarge'',
      ''m5.large'', ''m5.xlarge'', ''m5.2xlarge'', ''m5.4xlarge'', ''c5.large'', ''c5.xlarge'',
      ''c5.2xlarge'', ''c5.4xlarge'', ''default''}"
  by (simp add: NodeCostPerHour_def)

lemma table_distinct: "distinct (map fst NodeCostPerHour)"
  by (simp add: NodeCostPerHour_def)

lemma map_order_table: "map_order table_order"
  by (simp add: map_order_def table_order_def table_distinct)

lemma map_order_rev: "map_order (rev table_order)"
  by (simp add: map_order_def table_order_def table_distinct)

section \<open>Properties of the node rules\<close>

lemma analyzeNodes_loop_append:
  "analyzeNodes_loop ord now ms ns recs = recs @ analyzeNodes_loop ord now ms ns []"
proof (induction ns arbitrary: recs)
  case Nil
  show ?case by simp
next
  case (Cons n ns)
  note IH = Cons.IH
  show ?case
  proof (cases "find (\<lambda>m. nu_Name m = node_Name n) ms")
    case None
    then show ?thesis using IH[of recs] by simp
  next
    case (Some m)
    show ?thesis
      apply (simp add: Some Let_def)
      apply (intro conjI impI)
      apply (subst IH, subst (2) IH, simp)+
      done
  qed
qed

lemma analyzeNodes_loop_Cons:
  "analyzeNodes_loop ord now ms (n # ns) [] =
     analyzeNodes_loop ord now ms [n] [] @ analyzeNodes_loop ord now ms ns []"
  apply (cases "find (\<lambda>m. nu_Name m = node_Name n) ms")
   apply simp
  apply (simp add: Let_def)
  apply (intro conjI impI)
  apply (subst analyzeNodes_loop_append, simp)+
  done

lemma analyzeNodes_loop_Resource:
  "r \<in> set (analyzeNodes_loop ord now ms ns []) \<Longrightarrow> Resource r \<in> node_Name ` set ns"
proof (induction ns)
  case Nil
  then show ?case by simp
next
  case (Cons n ns)
  from Cons.prems
  have "r \<in> set (analyzeNodes_loop ord now ms ns []) \<or> Resource r = node_Name n"
    apply (cases "find (\<lambda>m. nu_Name m = node_Name n) ms")
     apply simp
    apply (simp add: Let_def)
    apply (subst (asm) analyzeNodes_loop_append)
    apply (auto simp: underutilizedNode_def overutilizedNode_def split: if_splits)
    done
  with Cons.IH show ?case by auto
qed

lemma analyzeNodes_loop_other:
  assumes "node_Name node \<notin> node_Name ` set ns"
  shows "filter (\<lambda>r. Type r = ''node_optimization'' \<and> Resource r = node_Name node)
           (analyzeNodes_loop ord now ms ns []) = []"
proof -
  have "\<And>r. r \<in> set (analyzeNodes_loop ord now ms ns []) \<Longrightarrow> Resource r \<noteq> node_Name node"
    using assms analyzeNodes_loop_Resource[of _ ord now ms ns] by metis
  then show ?thesis by (auto simp: filter_empty_conv)
qed

lemma analyzeNodes_loop_one:
  assumes "distinct (map node_Name ns)" "node \<in> set ns"
    "find (\<lambda>m. nu_Name m = node_Name node) ms = Some metrics"
    "float_less (nodeCPUUtil node metrics) 20" "float_less (nodeMemoryUtil node metrics) 30"
  shows "filter (\<lambda>r. Type r = ''node_optimization'' \<and> Resource r = node_Name node)
           (analyzeNodes_loop ord now ms ns []) =
         [underutilizedNode ord now node (nodeCPUUtil node metrics) (nodeMemoryUtil node metrics)]"
  using assms(1,2)
proof (induction ns)
  case Nil
  then show ?case by simp
next
  case (Cons n ns)
  show ?case
  proof (cases "n = node")
    case True
    with Cons.prems have "node_Name node \<notin> node_Name ` set ns" by auto
    from analyzeNodes_loop_other[OF this]
    have rest: "filter (\<lambda>r. Type r = ''node_optimization'' \<and> Resource r = node_Name node)
           (analyzeNodes_loop ord now ms ns []) = []" .
    show ?thesis
      apply (subst analyzeNodes_loop_Cons)
      apply (simp only: filter_append rest True)
      apply (simp add: assms(3,4,5) Let_def underutilizedNode_def overutilizedNode_def)
      done
  next
    case False
    with Cons.prems have in_ns: "node \<in> set ns" and d: "distinct (map node_Name ns)"
      and neq: "node_Name n \<noteq> node_Name node" by auto
    have own: "filter (\<lambda>r. Type r = ''node_optimization'' \<and> Resource r = node_Name node)
           (analyzeNodes_loop ord now ms [n] []) = []"
      using neq by (intro analyzeNodes_loop_other) simp
    show ?thesis
      apply (subst analyzeNodes_loop_Cons)
      apply (simp only: filter_append own Cons.IH[OF d in_ns])
      apply simp
      done
  qed
qed

lemma t3_large_rate:
  assumes "filter (Contains name) ord = [''t3.large'']"
  shows "calculateNodeCost ord name [] = 0.0832"
proof -
  have "find (Contains name) ord = Some ''t3.large''"
    using assms by (induction ord) (auto split: if_splits)
  then show ?thesis
    by (simp add: calculateNodeCost_def cost_at_def NodeCostPerHour_def)
qed

lemma t3_large_savings:
  assumes "filter (Contains name) ord = [''t3.large'']"
  shows "fmul (fmul (fmul (calculateNodeCost ord name []) 24) 30) 0.7
           = 5901516951706297 / 140737488355328"
  by (simp add: t3_large_rate[OF assms] float_eval)

lemma scenario_A_cpu: "nodeCPUUtil scenario_A_node scenario_A_usage = Fin 7.5"
  by (simp add: nodeCPUUtil_def scenario_A_node_def scenario_A_usage_def quantity_def
      MilliValue_def round_away_def float_div_def float_eval)

lemma scenario_A_mem: "nodeMemoryUtil scenario_A_node scenario_A_usage = Fin 6.103515625"
  by (simp add: nodeMemoryUtil_def scenario_A_node_def scenario_A_usage_def quantity_def
      Value_def round_away_def float_div_def float_eval)

lemma scenario_A_match:
  "filter (Contains (node_Name scenario_A_node)) table_order = [''t3.large'']"
  by (simp add: scenario_A_node_def table_order_def NodeCostPerHour_def)

text \<open>
  Claim C3, amended. When both listings succeed and node names are distinct, a node that
  has a usage sample, a CPU utilization below 20 and a memory utilization below 30 gets
  exactly one \<open>node_optimization\<close> recommendation: its priority is medium and its
  savings are the hourly rate that \<open>calculateNodeCost\<close> resolves from the node's name,
  times 24, times 30, times 0.7, in \<^verbatim>\<open>float64\<close>. When \<open>t3.large\<close> is the one label of
  the price table that the name contains, the savings are the float
  41.93279999999999, which is 41.93 to two decimals.
\<close>

theorem node_optimization_exactly_one:
  assumes "list_nodes cl = Inr nodes" and "list_node_metrics cl = Inr nodeMetrics"
    and "distinct (map node_Name nodes)" and "node \<in> set nodes"
    and "find (\<lambda>m. nu_Name m = node_Name node) nodeMetrics = Some metrics"
    and "float_less (nodeCPUUtil node metrics) 20"
    and "float_less (nodeMemoryUtil node metrics) 30"
  shows "filter (\<lambda>r. Type r = ''node_optimization'' \<and> Resource r = node_Name node)
           (analyzeNodes ord now cl) =
         [\<lparr>Type = ''node_optimization'',
           Resource = node_Name node,
           Namespace = [],
           Description = NodeUnderutilized (node_Name node) (nodeCPUUtil node metrics)
                           (nodeMemoryUtil node metrics),
           Impact = ''Consider consolidating workloads or downsizing'',
           Savings = fmul (fmul (fmul (calculateNodeCost ord (node_Name node) []) 24) 30) 0.7,
           Priority = ''medium'',
           Timestamp = now\<rparr>]
       \<and> (filter (Contains (node_Name node)) ord = [''t3.large''] \<longrightarrow>
            fmul (fmul (fmul (calculateNodeCost ord (node_Name node) []) 24) 30) 0.7
              = 5901516951706297 / 140737488355328
            \<and> \<bar>fmul (fmul (fmul (calculateNodeCost ord (node_Name node) []) 24) 30) 0.7
                 - 41.93\<bar> < 0.005)"
proof -
  have "analyzeNodes ord now cl = analyzeNodes_loop ord now nodeMetrics nodes []"
    by (simp add: analyzeNodes_def assms(1,2))
  with analyzeNodes_loop_one[OF assms(3-7), of ord now]
  have one: "filter (\<lambda>r. Type r = ''node_optimization'' \<and> Resource r = node_Name node)
           (analyzeNodes ord now cl) =
         [underutilizedNode ord now node (nodeCPUUtil node metrics)
            (nodeMemoryUtil node metrics)]"
    by simp
  have near: "\<bar>5901516951706297 / 140737488355328 - 41.93\<bar> < (0.005 :: real)"
    by simp
  show ?thesis
  proof (intro conjI impI)
    show "filter (\<lambda>r. Type r = ''node_optimization'' \<and> Resource r = node_Name node)
           (analyzeNodes ord now cl) =
         [\<lparr>Type = ''node_optimization'',
           Resource = node_Name node,
           Namespace = [],
           Description = NodeUnderutilized (node_Name node) (nodeCPUUtil node metrics)
                           (nodeMemoryUtil node metrics),
           Impact = ''Consider consolidating workloads or downsizing'',
           Savings = fmul (fmul (fmul (calculateNodeCost ord (node_Name node) []) 24) 30) 0.7,
           Priority = ''medium'',
           Timestamp = now\<rparr>]"
      unfolding one underutilizedNode_def ..
  next
    assume f: "filter (Contains (node_Name node)) ord = [''t3.large'']"
    show "fmul (fmul (fmul (calculateNodeCost ord (node_Name node) []) 24) 30) 0.7
              = 5901516951706297 / 140737488355328"
      by (rule t3_large_savings[OF f])
    show "\<bar>fmul (fmul (fmul (calculateNodeCost ord (node_Name node) []) 24) 30) 0.7
                 - 41.93\<bar> < 0.005"
      unfolding t3_large_savings[OF f] by (rule near)
  qed
qed

text \<open>The theorem on scenario A: one recommendation, of savings 41.93279999999999.\<close>

theorem node_optimization_scenario_A:
  "filter (\<lambda>r. Type r = ''node_optimization'' \<and> Resource r = ''ip-10-0-1-23.t3.large'')
           (analyzeNodes table_order 0 scenario_A) =
         [\<lparr>Type = ''node_optimization'',
           Resource = ''ip-10-0-1-23.t3.large'',
           Namespace = [],
           Description =
             NodeUnderutilized ''ip-10-0-1-23.t3.large'' (Fin 7.5) (Fin 6.103515625),
           Impact = ''Consider consolidating workloads or downsizing'',
           Savings = 5901516951706297 / 140737488355328,
           Priority = ''medium'',
           Timestamp = 0\<rparr>]
   \<and> \<bar>5901516951706297 / 140737488355328 - 41.93\<bar> < (0.005 :: real)"
proof -
  have 1: "list_nodes scenario_A = Inr [scenario_A_node]"
    and 2: "list_node_metrics scenario_A = Inr [scenario_A_usage]"
    by (simp_all add: scenario_A_def)
  have 3: "distinct (map node_Name [scenario_A_node])" by simp
  have 4: "scenario_A_node \<in> set [scenario_A_node]" by simp
  have 5: "find (\<lambda>m. nu_Name m = node_Name scenario_A_node) [scenario_A_usage]
             = Some scenario_A_usage"
    by (simp add: scenario_A_node_def scenario_A_usage_def)
  have 6: "float_less (nodeCPUUtil scenario_A_node scenario_A_usage) 20"
    by (simp add: scenario_A_cpu)
  have 7: "float_less (nodeMemoryUtil scenario_A_node scenario_A_usage) 30"
    by (simp add: scenario_A_mem)
  note T = node_optimization_exactly_one[OF 1 2 3 4 5 6 7, of table_order 0]
  from T[THEN conjunct2, rule_format, OF scenario_A_match]
  have s: "fmul (fmul (fmul (calculateNodeCost table_order (node_Name scenario_A_node) []) 24)
                   30) 0.7 = 5901516951706297 / 140737488355328"
    by (rule conjunct1)
  have n: "node_Name scenario_A_node = ''ip-10-0-1-23.t3.large''"
    by (simp add: scenario_A_node_def)
  have near: "\<bar>5901516951706297 / 140737488355328 - 41.93\<bar> < (0.005 :: real)"
    by simp
  from T[THEN conjunct1] near show ?thesis
    unfolding s unfolding scenario_A_cpu scenario_A_mem n by (rule conjI)
qed

text \<open>
  Claim C3 as stated fails: the name \<open>default-pool-t3.large\<close> contains the label
  t3.large, and the label default as well. A loop over the price table that meets
  default first prices the node at 0.1 an hour: at the usage of scenario A the savings
  are the float 50.400000000000006, not 41.93.
\<close>

theorem node_optimization_two_labels:
  "map_order (rev table_order)
   \<and> Contains (node_Name default_pool_node) ''t3.large''
   \<and> analyzeNodes (rev table_order) 0 default_pool_cluster =
       [\<lparr>Type = ''node_optimization'',
         Resource = ''default-pool-t3.large'',
         Namespace = [],
         Description =
           NodeUnderutilized ''default-pool-t3.large'' (Fin 7.5) (Fin 6.103515625),
         Impact = ''Consider consolidating workloads or downsizing'',
         Savings = 1773292353277133 / 35184372088832,
         Priority = ''medium'',
         Timestamp = 0\<rparr>]
   \<and> (50.4 :: real) < 1773292353277133 / 35184372088832"
proof -
  have o: "map_order (rev table_order)"
    by (rule map_order_rev)
  have c: "Contains (node_Name default_pool_node) ''t3.large''"
    by (simp add: default_pool_node_def)
  have cpu: "nodeCPUUtil default_pool_node default_pool_usage = Fin 7.5"
    by (simp add: nodeCPUUtil_def default_pool_node_def default_pool_usage_def quantity_def
        MilliValue_def round_away_def float_div_def float_eval)
  have mem: "nodeMemoryUtil default_pool_node default_pool_usage = Fin 6.103515625"
    by (simp add: nodeMemoryUtil_def default_pool_node_def default_pool_usage_def quantity_def
        Value_def round_away_def float_div_def float_eval)
  have rate: "calculateNodeCost (rev table_order) ''default-pool-t3.large'' [] = 0.1"
    by (simp add: calculateNodeCost_def table_order_def NodeCostPerHour_def cost_at_def)
  have sav: "fmul (fmul (fmul (calculateNodeCost (rev table_order) ''default-pool-t3.large'' [])
                       24) 30) 0.7 = 1773292353277133 / 35184372088832"
    by (simp add: rate float_eval)
  have n: "node_Name default_pool_node = ''default-pool-t3.large''"
    "nu_Name default_pool_usage = ''default-pool-t3.large''"
    by (simp_all add: default_pool_node_def default_pool_usage_def)
  have "analyzeNodes (rev table_order) 0 default_pool_cluster =
       [\<lparr>Type = ''node_optimization'',
         Resource = ''default-pool-t3.large'',
         Namespace = [],
         Description =
           NodeUnderutilized ''default-pool-t3.large'' (Fin 7.5) (Fin 6.103515625),
         Impact = ''Consider consolidating workloads or downsizing'',
         Savings = 1773292353277133 / 35184372088832,
         Priority = ''medium'',
         Timestamp = 0\<rparr>]"
    by (simp add: analyzeNodes_def default_pool_cluster_def Let_def n cpu mem
        underutilizedNode_def sav)
  moreover have "(50.4 :: real) < 1773292353277133 / 35184372088832" by simp
  ultimately show ?thesis using o c by (intro conjI)
qed

section \<open>Properties of the pod rules\<close>

lemma checkCPU_append: "checkCPU now pod c m recs = recs @ checkCPU now pod c m []"
  by (simp add: checkCPU_def Let_def split: option.splits)

lemma checkMemory_append: "checkMemory now pod c m recs = recs @ checkMemory now pod c m []"
  by (simp add: checkMemory_def Let_def split: option.splits)

lemma containerRecs_append:
  "checkMemory now pod c m (checkCPU now pod c m recs) = recs @ containerRecs now pod c m"
  unfolding containerRecs_def
  by (subst checkMemory_append, subst checkCPU_append, subst (2) checkMemory_append) simp

lemma analyzeContainers_zip:
  "analyzeContainers now pod ms i cs recs =
     Inr (recs @ concat (map (\<lambda>(c, m). containerRecs now pod c m) (zip cs (drop i ms))))"
proof (induction cs arbitrary: i recs)
  case Nil
  show ?case by simp
next
  case (Cons c cs)
  show ?case
  proof (cases "length ms \<le> i")
    case True
    then show ?thesis by (simp add: Cons.IH)
  next
    case False
    then have d: "drop i ms = ms ! i # drop (Suc i) ms"
      by (simp add: Cons_nth_drop_Suc)
    from False show ?thesis
      by (simp add: index_def Cons.IH d containerRecs_append)
  qed
qed

lemma zip_as_indices:
  "zip xs ys = map (\<lambda>i. (xs ! i, ys ! i)) [0..<min (length xs) (length ys)]"
  by (rule nth_equalityI) auto

lemma analyzeContainers_indices:
  "analyzeContainers now pod ms 0 cs recs =
     Inr (recs @ concat (map (\<lambda>i. containerRecs now pod (cs ! i) (ms ! i))
                          [0..<min (length cs) (length ms)]))"
  by (simp add: analyzeContainers_zip zip_as_indices comp_def)

lemma analyzePods_loop_closed:
  "analyzePods_loop now pms pods recs = Inr (recs @ concat (map (podRecs now pms) pods))"
proof (induction pods arbitrary: recs)
  case Nil
  show ?case by simp
next
  case (Cons p ps)
  show ?case
    by (simp add: Cons.IH podRecs_def analyzeContainers_indices split: option.splits)
qed

lemma filter_concat_map_unique:
  assumes "distinct (map key xs)" and "x \<in> set xs"
    and "\<And>y. y \<in> set xs \<Longrightarrow> key y \<noteq> key x \<Longrightarrow> filter Q (f y) = []"
  shows "filter Q (concat (map f xs)) = filter Q (f x)"
  using assms
proof (induction xs)
  case Nil
  then show ?case by simp
next
  case (Cons a xs)
  show ?case
  proof (cases "a = x")
    case True
    with Cons.prems(1) have "key x \<notin> key ` set xs" by simp
    then have "\<And>y. y \<in> set xs \<Longrightarrow> key y \<noteq> key x" by (metis imageI)
    with Cons.prems(3) have "\<And>y. y \<in> set xs \<Longrightarrow> filter Q (f y) = []" by simp
    then have "filter Q (concat (map f xs)) = []"
      by (induction xs) auto
    with True show ?thesis by simp
  next
    case False
    with Cons.prems have x: "x \<in> set xs" and k: "key a \<noteq> key x" and d: "distinct (map key xs)"
      by auto
    have "filter Q (f a) = []" using Cons.prems(3)[of a] k by simp
    moreover have "filter Q (concat (map f xs)) = filter Q (f x)"
      using Cons.IH[OF d x] Cons.prems(3) by simp
    ultimately show ?thesis by simp
  qed
qed

lemma containerRecs_cases:
  "containerRecs now pod c m =
     (if 0 < MilliValue (containerRequest c ResourceCPU)
         \<and> MilliValue (quantity (cu_Usage m) ResourceCPU)
             < MilliValue (containerRequest c ResourceCPU) div 2
      then [cpuRightsizing now pod c (MilliValue (containerRequest c ResourceCPU))
              (MilliValue (quantity (cu_Usage m) ResourceCPU))]
      else [])
     @ (if 0 < Value (containerRequest c ResourceMemory)
           \<and> Value (quantity (cu_Usage m) ResourceMemory)
               < Value (containerRequest c ResourceMemory) div 2
        then [memoryRightsizing now pod c (containerRequest c ResourceMemory)
                (quantity (cu_Usage m) ResourceMemory)]
        else [])"
proof -
  have g: "\<And>a::int. 0 < a \<Longrightarrow> go_div a 2 = a div 2"
    by (simp add: go_div_def)
  have z: "MilliValue 0 = 0" "Value 0 = 0"
    by (simp_all add: MilliValue_def Value_def round_away_def)
  show ?thesis
    by (cases "c_Requests c")
       (auto simp: containerRecs_def checkCPU_def checkMemory_def containerRequest_def
          Let_def g z)
qed

lemma podRecs_of_pod:
  "r \<in> set (podRecs now pms p) \<Longrightarrow>
     Namespace r = pod_Namespace p \<and> Resource r = podResource (pod_Namespace p) (pod_Name p)"
proof -
  assume r: "r \<in> set (podRecs now pms p)"
  have c: "\<And>c m. r \<in> set (containerRecs now p c m) \<Longrightarrow> ?thesis"
    by (auto simp: containerRecs_cases cpuRightsizing_def memoryRightsizing_def
        split: if_splits)
  from r show ?thesis
    unfolding podRecs_def
    by (cases "find (\<lambda>m. pu_Name m = pod_Name p \<and> pu_Namespace m = pod_Namespace p) pms";
        cases "pod_Phase p = PodRunning") (auto dest: c)
qed

lemma podRecs_other_pod_cpu:
  assumes "(pod_Namespace p, pod_Name p) \<noteq> (pod_Namespace pod, pod_Name pod)"
  shows "filter (isCPURightsizingOf pod c) (podRecs now pms p) = []"
proof -
  have "\<And>r. r \<in> set (podRecs now pms p) \<Longrightarrow> \<not> isCPURightsizingOf pod c r"
  proof
    fix r assume "r \<in> set (podRecs now pms p)" and "isCPURightsizingOf pod c r"
    with podRecs_of_pod[of r now pms p] assms show False
      by (auto simp: isCPURightsizingOf_def podResource_def)
  qed
  then show ?thesis by (simp add: filter_empty_conv)
qed

lemma podRecs_other_pod_memory:
  assumes "(pod_Namespace p, pod_Name p) \<noteq> (pod_Namespace pod, pod_Name pod)"
  shows "filter (isMemoryRightsizingOf pod c) (podRecs now pms p) = []"
proof -
  have "\<And>r. r \<in> set (podRecs now pms p) \<Longrightarrow> \<not> isMemoryRightsizingOf pod c r"
  proof
    fix r assume "r \<in> set (podRecs now pms p)" and "isMemoryRightsizingOf pod c r"
    with podRecs_of_pod[of r now pms p] assms show False
      by (auto simp: isMemoryRightsizingOf_def podResource_def)
  qed
  then show ?thesis by (simp add: filter_empty_conv)
qed

lemma containerRecs_other_cpu:
  assumes "c_Name c' \<noteq> c_Name c"
  shows "filter (isCPURightsizingOf pod c) (containerRecs now pod c' m) = []"
  using assms
  by (simp add: containerRecs_cases isCPURightsizingOf_def cpuRightsizing_def
      memoryRightsizing_def)

lemma containerRecs_other_memory:
  assumes "c_Name c' \<noteq> c_Name c"
  shows "filter (isMemoryRightsizingOf pod c) (containerRecs now pod c' m) = []"
  using assms
  by (simp add: containerRecs_cases isMemoryRightsizingOf_def cpuRightsizing_def
      memoryRightsizing_def)

lemma containerRecs_own_cpu:
  "filter (isCPURightsizingOf pod c) (containerRecs now pod c m) =
     (if 0 < MilliValue (containerRequest c ResourceCPU)
         \<and> MilliValue (quantity (cu_Usage m) ResourceCPU)
             < MilliValue (containerRequest c ResourceCPU) div 2
      then [cpuRightsizing now pod c (MilliValue (containerRequest c ResourceCPU))
              (MilliValue (quantity (cu_Usage m) ResourceCPU))]
      else [])"
  by (simp add: containerRecs_cases isCPURightsizingOf_def cpuRightsizing_def
      memoryRightsizing_def)

lemma containerRecs_own_memory:
  "filter (isMemoryRightsizingOf pod c) (containerRecs now pod c m) =
     (if 0 < Value (containerRequest c ResourceMemory)
           \<and> Value (quantity (cu_Usage m) ResourceMemory)
               < Value (containerRequest c ResourceMemory) div 2
        then [memoryRightsizing now pod c (containerRequest c ResourceMemory)
                (quantity (cu_Usage m) ResourceMemory)]
        else [])"
  by (simp add: containerRecs_cases isMemoryRightsizingOf_def cpuRightsizing_def
      memoryRightsizing_def)

lemma podRecs_filter_container:
  assumes run: "pod_Phase pod = PodRunning"
    and found: "find (\<lambda>m. pu_Name m = pod_Name pod \<and> pu_Namespace m = pod_Namespace pod) pms
                  = Some metrics"
    and names: "distinct (map c_Name (pod_Containers pod))"
    and i1: "i < length (pod_Containers pod)" and i2: "i < length (pu_Containers metrics)"
    and other: "\<And>c' m. c_Name c' \<noteq> c_Name (pod_Containers pod ! i)
                  \<Longrightarrow> filter Q (containerRecs now pod c' m) = []"
  shows "filter Q (podRecs now pms pod) =
         filter Q (containerRecs now pod (pod_Containers pod ! i) (pu_Containers metrics ! i))"
proof -
  let ?cs = "pod_Containers pod" and ?ms = "pu_Containers metrics"
  let ?n = "min (length ?cs) (length ?ms)"
  have d: "distinct (map (\<lambda>j. c_Name (?cs ! j)) [0..<?n])"
  proof -
    have "map (\<lambda>j. c_Name (?cs ! j)) [0..<?n] = take ?n (map c_Name ?cs)"
      by (rule nth_equalityI) auto
    with names show ?thesis by simp
  qed
  have mem: "i \<in> set [0..<?n]" using i1 i2 by simp
  have "filter Q (concat (map (\<lambda>j. containerRecs now pod (?cs ! j) (?ms ! j)) [0..<?n])) =
        filter Q (containerRecs now pod (?cs ! i) (?ms ! i))"
    by (rule filter_concat_map_unique[OF d mem]) (rule other)
  then show ?thesis by (simp add: podRecs_def run found)
qed

text \<open>
  Claim C4, amended. When both listings succeed, pods are distinct by namespace and name
  and the containers of a pod by name: for a running pod with a usage sample and its
  \<open>i\<close>-th container, \<open>i\<close> below the number of entries of the sample, the analysis
  returns a list whose CPU recommendations for that container are exactly one, of type
  \<open>resource_rightsizing\<close>, savings 15 and priority low, when the CPU request in
  millicores is positive and the usage is below the request halved as an integer
  (\<open>div 2\<close>), and none otherwise; and, independently, whose memory recommendations for
  that container are exactly one, of savings 10 and priority low, when the memory request
  in bytes is positive and the usage is below the request halved as an integer, and none
  otherwise.
\<close>

theorem rightsizing_per_container:
  assumes "list_pods cl = Inr pods" and "list_pod_metrics cl = Inr podMetrics"
    and "distinct (map (\<lambda>p. (pod_Namespace p, pod_Name p)) pods)"
    and "pod \<in> set pods" and "pod_Phase pod = PodRunning"
    and "find (\<lambda>m. pu_Name m = pod_Name pod \<and> pu_Namespace m = pod_Namespace pod) podMetrics
           = Some metrics"
    and "distinct (map c_Name (pod_Containers pod))"
    and "i < length (pod_Containers pod)" and "i < length (pu_Containers metrics)"
    and "container = pod_Containers pod ! i"
    and "cpuRequest = MilliValue (containerRequest container ResourceCPU)"
    and "cpuUsage = MilliValue (quantity (cu_Usage (pu_Containers metrics ! i)) ResourceCPU)"
    and "memRequest = containerRequest container ResourceMemory"
    and "memUsage = quantity (cu_Usage (pu_Containers metrics ! i)) ResourceMemory"
  shows "\<exists>recs. analyzePods now cl = Inr recs
     \<and> filter (isCPURightsizingOf pod container) recs =
         (if 0 < cpuRequest \<and> cpuUsage < cpuRequest div 2
          then [\<lparr>Type = ''resource_rightsizing'',
                 Resource = pod_Namespace pod @ ''/'' @ pod_Name pod,
                 Namespace = pod_Namespace pod,
                 Description = CPUOverProvisioned (c_Name container) cpuRequest cpuUsage,
                 Impact = ''Reduce CPU request to optimize resource allocation'',
                 Savings = 15,
                 Priority = ''low'',
                 Timestamp = now\<rparr>]
          else [])
     \<and> filter (isMemoryRightsizingOf pod container) recs =
         (if 0 < Value memRequest \<and> Value memUsage < Value memRequest div 2
          then [\<lparr>Type = ''resource_rightsizing'',
                 Resource = pod_Namespace pod @ ''/'' @ pod_Name pod,
                 Namespace = pod_Namespace pod,
                 Description = MemoryOverProvisioned (c_Name container) memRequest memUsage,
                 Impact = ''Reduce memory request to optimize resource allocation'',
                 Savings = 10,
                 Priority = ''low'',
                 Timestamp = now\<rparr>]
          else [])"
proof -
  let ?recs = "concat (map (podRecs now podMetrics) pods)"
  let ?m = "pu_Containers metrics ! i"
  have out: "analyzePods now cl = Inr ?recs"
    by (simp add: analyzePods_def assms(1,2) analyzePods_loop_closed)
  have cpu: "filter (isCPURightsizingOf pod container) ?recs =
             filter (isCPURightsizingOf pod container) (containerRecs now pod container ?m)"
  proof -
    have "filter (isCPURightsizingOf pod container) ?recs =
          filter (isCPURightsizingOf pod container) (podRecs now podMetrics pod)"
      by (rule filter_concat_map_unique[OF assms(3,4)]) (rule podRecs_other_pod_cpu)
    also have "\<dots> = filter (isCPURightsizingOf pod container)
                       (containerRecs now pod (pod_Containers pod ! i) ?m)"
      by (rule podRecs_filter_container[OF assms(5-9)])
         (simp add: assms(10) containerRecs_other_cpu)
    finally show ?thesis by (simp add: assms(10))
  qed
  have mem: "filter (isMemoryRightsizingOf pod container) ?recs =
             filter (isMemoryRightsizingOf pod container) (containerRecs now pod container ?m)"
  proof -
    have "filter (isMemoryRightsizingOf pod container) ?recs =
          filter (isMemoryRightsizingOf pod container) (podRecs now podMetrics pod)"
      by (rule filter_concat_map_unique[OF assms(3,4)]) (rule podRecs_other_pod_memory)
    also have "\<dots> = filter (isMemoryRightsizingOf pod container)
                       (containerRecs now pod (pod_Containers pod ! i) ?m)"
      by (rule podRecs_filter_container[OF assms(5-9)])
         (simp add: assms(10) containerRecs_other_memory)
    finally show ?thesis by (simp add: assms(10))
  qed
  show ?thesis
    unfolding out
    by (simp add: cpu mem containerRecs_own_cpu containerRecs_own_memory assms(11-14)
        cpuRightsizing_def memoryRightsizing_def podResource_def)
qed

lemmas quantity_eval = quantity_def MilliValue_def Value_def round_away_def containerRequest_def

text \<open>
  Claim C4 as stated fails: with a request of 501m and a usage of 250m the usage is below
  half the request, 250.5m, and no recommendation is produced, since the code compares
  with \<^verbatim>\<open>501/2 = 250\<close>.
\<close>

theorem rightsizing_odd_request:
  "analyzePods 0 odd_request_cluster = Inr []
   \<and> 0 < MilliValue (containerRequest odd_request_container ResourceCPU)
   \<and> real_of_int (MilliValue (quantity (cu_Usage odd_request_usage) ResourceCPU))
       < real_of_int (MilliValue (containerRequest odd_request_container ResourceCPU)) / 2"
  by (simp add: analyzePods_def odd_request_cluster_def odd_request_container_def
      odd_request_usage_def index_def checkCPU_def checkMemory_def quantity_eval go_div_def)

text \<open>The theorem on the container of 500m and 150m: one recommendation of savings 15.\<close>

theorem rightsizing_scenario_B:
  "\<exists>recs. analyzePods 0 scenario_B = Inr recs
     \<and> filter (isCPURightsizingOf scenario_B_pod scenario_B_container) recs =
         [\<lparr>Type = ''resource_rightsizing'',
           Resource = ''default/web'',
           Namespace = ''default'',
           Description = CPUOverProvisioned ''app'' 500 150,
           Impact = ''Reduce CPU request to optimize resource allocation'',
           Savings = 15,
           Priority = ''low'',
           Timestamp = 0\<rparr>]
     \<and> filter (isMemoryRightsizingOf scenario_B_pod scenario_B_container) recs = []"
proof -
  have 1: "list_pods scenario_B = Inr [scenario_B_pod]"
    and 2: "list_pod_metrics scenario_B = Inr [scenario_B_usage]"
    by (simp_all add: scenario_B_def)
  have 3: "distinct (map (\<lambda>p. (pod_Namespace p, pod_Name p)) [scenario_B_pod])" by simp
  have 4: "scenario_B_pod \<in> set [scenario_B_pod]" by simp
  have 5: "pod_Phase scenario_B_pod = PodRunning" by (simp add: scenario_B_pod_def)
  have 6: "find (\<lambda>m. pu_Name m = pod_Name scenario_B_pod
                    \<and> pu_Namespace m = pod_Namespace scenario_B_pod) [scenario_B_usage]
           = Some scenario_B_usage"
    by (simp add: scenario_B_pod_def scenario_B_usage_def)
  have 7: "distinct (map c_Name (pod_Containers scenario_B_pod))"
    by (simp add: scenario_B_pod_def)
  have 8: "0 < length (pod_Containers scenario_B_pod)" by (simp add: scenario_B_pod_def)
  have 9: "0 < length (pu_Containers scenario_B_usage)" by (simp add: scenario_B_usage_def)
  have 10: "scenario_B_container = pod_Containers scenario_B_pod ! 0"
    by (simp add: scenario_B_pod_def)
  have cpu: "MilliValue (containerRequest scenario_B_container ResourceCPU) = 500"
      "MilliValue (quantity (cu_Usage (pu_Containers scenario_B_usage ! 0)) ResourceCPU) = 150"
    by (simp_all add: scenario_B_container_def scenario_B_usage_def quantity_eval)
  have mem: "Value (containerRequest scenario_B_container ResourceMemory) = 0"
    by (simp add: scenario_B_container_def quantity_eval)
  from rightsizing_per_container[OF 1 2 3 4 5 6 7 8 9 10 refl refl refl refl, of 0]
  show ?thesis
    by (simp add: cpu mem) (simp add: scenario_B_pod_def scenario_B_container_def)
qed

lemma containerRecs_rename:
  "containerRecs now pod c (m\<lparr>cu_Name := x\<rparr>) = containerRecs now pod c m"
  by (simp add: containerRecs_def checkCPU_def checkMemory_def Let_def split: option.splits)

lemma find_map:
  "find P (map g xs) = map_option g (find (\<lambda>x. P (g x)) xs)"
  by (induction xs) auto

lemma podRecs_rename:
  "podRecs now (map (renameUsage f) pms) pod = podRecs now pms pod"
proof (cases "find (\<lambda>m. pu_Name m = pod_Name pod \<and> pu_Namespace m = pod_Namespace pod) pms")
  case None
  then show ?thesis by (simp add: podRecs_def find_map renameUsage_def)
next
  case (Some metrics)
  have "map (\<lambda>i. containerRecs now pod (pod_Containers pod ! i)
                    (pu_Containers (renameUsage f metrics) ! i))
          [0..<min (length (pod_Containers pod)) (length (pu_Containers (renameUsage f metrics)))]
      = map (\<lambda>i. containerRecs now pod (pod_Containers pod ! i) (pu_Containers metrics ! i))
          [0..<min (length (pod_Containers pod)) (length (pu_Containers metrics))]"
    by (rule nth_equalityI) (simp_all add: renameUsage_def containerRecs_rename)
  moreover have "find (\<lambda>m. pu_Name m = pod_Name pod \<and> pu_Namespace m = pod_Namespace pod)
           (map (renameUsage f) pms) = Some (renameUsage f metrics)"
    using Some by (simp add: find_map renameUsage_def)
  ultimately show ?thesis using Some by (simp add: podRecs_def)
qed

text \<open>
  Claim C10. When both listings succeed the analysis of the pods does not panic, and its
  list is the concatenation over the pods of what \<open>podRecs\<close> gives: for a running pod
  with a usage sample, the rules applied to the \<open>i\<close>-th container and the \<open>i\<close>-th
  entry of the sample for every \<open>i\<close> below both lengths, so that a container at an
  index from the number of entries on adds nothing. The names of the entries play no
  part: renaming them changes nothing.
\<close>

theorem containers_paired_by_position:
  assumes "list_pods cl = Inr pods" and "list_pod_metrics cl = Inr podMetrics"
  shows "analyzePods now cl = Inr (concat (map (podRecs now podMetrics) pods))
       \<and> analyzePods now (cl\<lparr>list_pod_metrics := Inr (map (renameUsage f) podMetrics)\<rparr>)
           = analyzePods now cl"
proof -
  have "podRecs now (map (renameUsage f) podMetrics) = podRecs now podMetrics"
    by (rule ext) (rule podRecs_rename)
  then show ?thesis
    by (simp add: analyzePods_def assms analyzePods_loop_closed)
qed

text \<open>The theorem on the pod of app and sidecar: app is paired with the entry named
  sidecar, and sidecar, at index 1, is skipped.\<close>

theorem containers_paired_by_position_witness:
  "analyzePods 0 positional_cluster =
     Inr [\<lparr>Type = ''resource_rightsizing'',
           Resource = ''default/web'',
           Namespace = ''default'',
           Description = CPUOverProvisioned ''app'' 500 100,
           Impact = ''Reduce CPU request to optimize resource allocation'',
           Savings = 15,
           Priority = ''low'',
           Timestamp = 0\<rparr>]"
proof -
  have 1: "list_pods positional_cluster = Inr [positional_pod]"
    and 2: "list_pod_metrics positional_cluster = Inr [positional_usage]"
    by (simp_all add: positional_cluster_def)
  have "podRecs 0 [positional_usage] positional_pod =
     [\<lparr>Type = ''resource_rightsizing'',
           Resource = ''default/web'',
           Namespace = ''default'',
           Description = CPUOverProvisioned ''app'' 500 100,
           Impact = ''Reduce CPU request to optimize resource allocation'',
           Savings = 15,
           Priority = ''low'',
           Timestamp = 0\<rparr>]"
    by (simp add: podRecs_def positional_pod_def positional_usage_def containerRecs_def
        checkCPU_def checkMemory_def quantity_eval go_div_def cpuRightsizing_def podResource_def)
  with containers_paired_by_position[OF 1 2, of 0 id] show ?thesis by simp
qed

section \<open>Properties of the node rules at zero capacity\<close>

lemma analyzeNodes_loop_concat:
  "analyzeNodes_loop ord now ms ns [] =
     concat (map (\<lambda>n. analyzeNodes_loop ord now ms [n] []) ns)"
proof (induction ns)
  case Nil
  show ?case by simp
next
  case (Cons n ns)
  have "analyzeNodes_loop ord now ms (n # ns) [] =
          analyzeNodes_loop ord now ms [n] [] @ analyzeNodes_loop ord now ms ns []"
    by (rule analyzeNodes_loop_Cons)
  also have "\<dots> = analyzeNodes_loop ord now ms [n] []
                     @ concat (map (\<lambda>n. analyzeNodes_loop ord now ms [n] []) ns)"
    by (simp only: Cons.IH)
  finally show ?case by (simp only: list.map concat.simps)
qed

lemma analyzeNodes_loop_single:
  assumes "find (\<lambda>m. nu_Name m = node_Name node) ms = Some metrics"
  shows "analyzeNodes_loop ord now ms [node] [] =
     (if float_less (nodeCPUUtil node metrics) 20 \<and> float_less (nodeMemoryUtil node metrics) 30
      then [underutilizedNode ord now node (nodeCPUUtil node metrics)
              (nodeMemoryUtil node metrics)]
      else [])
     @ (if float_greater (nodeCPUUtil node metrics) 90
           \<or> float_greater (nodeMemoryUtil node metrics) 90
        then [overutilizedNode now node (nodeCPUUtil node metrics) (nodeMemoryUtil node metrics)]
        else [])"
  by (simp add: assms Let_def)

lemma analyzeNodes_loop_of_node:
  assumes "distinct (map node_Name ns)" and "node \<in> set ns"
  shows "filter (\<lambda>r. Resource r = node_Name node) (analyzeNodes_loop ord now ms ns []) =
         analyzeNodes_loop ord now ms [node] []"
proof -
  have other: "filter (\<lambda>r. Resource r = node_Name node) (analyzeNodes_loop ord now ms [n] []) = []"
    if "node_Name n \<noteq> node_Name node" for n
    using that analyzeNodes_loop_Resource[of _ ord now ms "[n]"]
    by (fastforce simp: filter_empty_conv)
  have own: "filter (\<lambda>r. Resource r = node_Name node) (analyzeNodes_loop ord now ms [node] [])
             = analyzeNodes_loop ord now ms [node] []"
    using analyzeNodes_loop_Resource[of _ ord now ms "[node]"]
    by (fastforce simp: filter_id_conv)
  have "filter (\<lambda>r. Resource r = node_Name node)
          (concat (map (\<lambda>n. analyzeNodes_loop ord now ms [n] []) ns))
        = filter (\<lambda>r. Resource r = node_Name node) (analyzeNodes_loop ord now ms [node] [])"
    by (rule filter_concat_map_unique[OF assms]) (rule other)
  then show ?thesis by (simp only: analyzeNodes_loop_concat[of ord now ms ns] own)
qed

lemma float_div_zero:
  "0 \<le> a \<Longrightarrow> float_scale (float_div a 0) 100 = (if 0 < a then PInf else NaN)"
  by (auto simp: float_div_def)

text \<open>
  Claim C5, amended. When both listings succeed and node names are distinct, for a node
  that has a usage sample, usages that are not negative and a capacity of zero for the
  CPU or for the memory: the analysis returns a list (a float division does not panic);
  the utilization of a dimension of capacity zero is plus infinity when its usage is
  positive and NaN when its usage is zero; the node gets no \<open>node_optimization\<close>
  recommendation; and it gets one \<open>node_scaling\<close> recommendation when a utilization
  exceeds 90, which the one of a dimension of capacity zero does as soon as its usage is
  positive, and none otherwise.
\<close>

theorem zero_capacity_node:
  assumes "list_nodes cl = Inr nodes" and "list_node_metrics cl = Inr nodeMetrics"
    and "distinct (map node_Name nodes)" and "node \<in> set nodes"
    and "find (\<lambda>m. nu_Name m = node_Name node) nodeMetrics = Some metrics"
    and "cpuCapacity = MilliValue (quantity (node_Capacity node) ResourceCPU)"
    and "memoryCapacity = Value (quantity (node_Capacity node) ResourceMemory)"
    and "cpuUsage = MilliValue (quantity (nu_Usage metrics) ResourceCPU)"
    and "memoryUsage = Value (quantity (nu_Usage metrics) ResourceMemory)"
    and "cpuCapacity = 0 \<or> memoryCapacity = 0"
    and "0 \<le> cpuUsage" and "0 \<le> memoryUsage"
  shows "filter (\<lambda>r. Resource r = node_Name node) (analyzeNodes ord now cl) =
           (if float_greater (nodeCPUUtil node metrics) 90
               \<or> float_greater (nodeMemoryUtil node metrics) 90
            then [\<lparr>Type = ''node_scaling'',
                   Resource = node_Name node,
                   Namespace = [],
                   Description = NodeOverutilized (node_Name node) (nodeCPUUtil node metrics)
                                   (nodeMemoryUtil node metrics),
                   Impact = ''Consider scaling up or adding more nodes'',
                   Savings = - 50,
                   Priority = ''high'',
                   Timestamp = now\<rparr>]
            else [])
       \<and> (cpuCapacity = 0 \<longrightarrow>
            nodeCPUUtil node metrics = (if 0 < cpuUsage then PInf else NaN)
            \<and> (float_greater (nodeCPUUtil node metrics) 90 \<longleftrightarrow> 0 < cpuUsage))
       \<and> (memoryCapacity = 0 \<longrightarrow>
            nodeMemoryUtil node metrics = (if 0 < memoryUsage then PInf else NaN)
            \<and> (float_greater (nodeMemoryUtil node metrics) 90 \<longleftrightarrow> 0 < memoryUsage))"
proof -
  have cpu: "nodeCPUUtil node metrics = (if 0 < cpuUsage then PInf else NaN)"
    if "cpuCapacity = 0"
    using that assms(6,8,11) float_div_zero[of cpuUsage] by (simp add: nodeCPUUtil_def)
  have mem: "nodeMemoryUtil node metrics = (if 0 < memoryUsage then PInf else NaN)"
    if "memoryCapacity = 0"
    using that assms(7,9,12) float_div_zero[of memoryUsage] by (simp add: nodeMemoryUtil_def)
  have under: "\<not> (float_less (nodeCPUUtil node metrics) 20
                  \<and> float_less (nodeMemoryUtil node metrics) 30)"
    using assms(10) cpu mem by (auto split: if_splits)
  have "analyzeNodes ord now cl = analyzeNodes_loop ord now nodeMetrics nodes []"
    by (simp add: analyzeNodes_def assms(1,2))
  then have "filter (\<lambda>r. Resource r = node_Name node) (analyzeNodes ord now cl)
             = analyzeNodes_loop ord now nodeMetrics [node] []"
    by (simp add: analyzeNodes_loop_of_node[OF assms(3,4)])
  also have "\<dots> = (if float_greater (nodeCPUUtil node metrics) 90
                       \<or> float_greater (nodeMemoryUtil node metrics) 90
                    then [overutilizedNode now node (nodeCPUUtil node metrics)
                            (nodeMemoryUtil node metrics)]
                    else [])"
    by (subst analyzeNodes_loop_single[OF assms(5)]) (use under in simp)
  finally show ?thesis
    using cpu mem by (auto simp: overutilizedNode_def)
qed

text \<open>
  Claim C5 as stated fails: a node with no memory capacity, 500Mi of memory in use and a
  CPU utilization of 7.5 gets a \<open>node_scaling\<close> recommendation. Its memory utilization
  is plus infinity, which exceeds 90: the node is not left out of the rules on memory.
\<close>

theorem zero_memory_capacity_scaling:
  "analyzeNodes table_order 0 zero_memory_cluster =
     [\<lparr>Type = ''node_scaling'',
       Resource = ''ip-10-0-1-23.t3.large'',
       Namespace = [],
       Description = NodeOverutilized ''ip-10-0-1-23.t3.large'' (Fin 7.5) PInf,
       Impact = ''Consider scaling up or adding more nodes'',
       Savings = - 50,
       Priority = ''high'',
       Timestamp = 0\<rparr>]"
  by (simp add: analyzeNodes_def zero_memory_cluster_def zero_memory_node_def
      scenario_A_usage_def nodeCPUUtil_def nodeMemoryUtil_def quantity_eval float_div_def
      overutilizedNode_def float_eval)

text \<open>The theorem on the node with no memory capacity and no memory in use: its memory
  utilization is NaN and it gets no recommendation, although its CPU utilization is 7.5.\<close>

theorem zero_capacity_node_witness:
  "filter (\<lambda>r. Resource r = ''ip-10-0-1-23.t3.large'')
     (analyzeNodes table_order 0 zero_memory_idle_cluster) = []
   \<and> nodeCPUUtil zero_memory_node idle_usage = Fin 7.5
   \<and> nodeMemoryUtil zero_memory_node idle_usage = NaN"
proof -
  have 1: "list_nodes zero_memory_idle_cluster = Inr [zero_memory_node]"
    and 2: "list_node_metrics zero_memory_idle_cluster = Inr [idle_usage]"
    by (simp_all add: zero_memory_idle_cluster_def)
  have 3: "distinct (map node_Name [zero_memory_node])" by simp
  have 4: "zero_memory_node \<in> set [zero_memory_node]" by simp
  have 5: "find (\<lambda>m. nu_Name m = node_Name zero_memory_node) [idle_usage] = Some idle_usage"
    by (simp add: zero_memory_node_def idle_usage_def)
  have caps: "MilliValue (quantity (node_Capacity zero_memory_node) ResourceCPU) = 2000"
      "Value (quantity (node_Capacity zero_memory_node) ResourceMemory) = 0"
    by (simp_all add: zero_memory_node_def quantity_eval)
  have uses: "MilliValue (quantity (nu_Usage idle_usage) ResourceCPU) = 150"
      "Value (quantity (nu_Usage idle_usage) ResourceMemory) = 0"
    by (simp_all add: idle_usage_def quantity_eval)
  have 10: "MilliValue (quantity (node_Capacity zero_memory_node) ResourceCPU) = 0
            \<or> Value (quantity (node_Capacity zero_memory_node) ResourceMemory) = 0"
    by (simp add: caps)
  have 11: "0 \<le> MilliValue (quantity (nu_Usage idle_usage) ResourceCPU)"
    and 12: "0 \<le> Value (quantity (nu_Usage idle_usage) ResourceMemory)"
    by (simp_all add: uses)
  have cpu: "nodeCPUUtil zero_memory_node idle_usage = Fin 7.5"
    by (simp add: nodeCPUUtil_def caps uses float_div_def float_eval)
  from zero_capacity_node[OF 1 2 3 4 5 refl refl refl refl 10 11 12, of table_order 0]
  show ?thesis
    by (simp add: caps uses cpu) (simp add: zero_memory_node_def)
qed

section \<open>Properties of the cycle\<close>

lemma analyzePods_returns: "\<exists>recs. analyzePods now cl = Inr recs"
  by (cases "list_pods cl"; cases "list_pod_metrics cl")
     (simp_all add: analyzePods_def analyzePods_loop_closed)

lemma cycle_returns:
  "\<exists>pr. analyzePods now cl = Inr pr
     \<and> analyzeAndGenerateRecommendations ord now cl co =
         Inr (co\<lparr>recommendations :=
                  analyzeNodes ord now cl @ pr @ analyzeDeployments now cl\<rparr>)"
proof -
  obtain pr where "analyzePods now cl = Inr pr"
    using analyzePods_returns by blast
  then show ?thesis
    by (simp add: analyzeAndGenerateRecommendations_def)
qed

lemma StartMonitoring_returns:
  "\<exists>co'. StartMonitoring ord clock env k n co = Inr co'"
proof (induction n arbitrary: k co)
  case 0
  show ?case by simp
next
  case (Suc n)
  obtain co1 where "analyzeAndGenerateRecommendations ord (clock k) (env k) co = Inr co1"
    using cycle_returns[of "clock k" "env k" ord co] by blast
  with Suc.IH[of "k + 1" co1] show ?case by simp
qed

lemma StartMonitoring_last:
  "StartMonitoring ord clock env k (Suc n) co =
     (case StartMonitoring ord clock env k n co of
        Inl p \<Rightarrow> Inl p
      | Inr co' \<Rightarrow> analyzeAndGenerateRecommendations ord (clock (k + n)) (env (k + n)) co')"
proof (induction n arbitrary: k co)
  case 0
  show ?case by (simp split: sum.splits)
next
  case (Suc n)
  show ?case
  proof (cases "analyzeAndGenerateRecommendations ord (clock k) (env k) co")
    case (Inl p)
    then show ?thesis by simp
  next
    case (Inr co1)
    have l: "StartMonitoring ord clock env k (Suc (Suc n)) co =
             StartMonitoring ord clock env (k + 1) (Suc n) co1"
      using Inr by simp
    have r: "StartMonitoring ord clock env k (Suc n) co =
             StartMonitoring ord clock env (k + 1) n co1"
      using Inr by simp
    show ?thesis
      unfolding l r
      by (simp add: Suc.IH[of "Suc k" co1] del: StartMonitoring.simps split: sum.splits)
  qed
qed

text \<open>
  Claim C6. A cycle never panics, whatever the five listings answer, and stores the
  recommendations of the nodes, then of the pods, then of the deployments. A listing that
  fails empties the list of its own kind only: the recommendations of a kind depend on
  the listings of that kind alone. The loop of \<open>StartMonitoring\<close> runs every one of its
  cycles, and after cycle \<open>k + n\<close> the stored list is the list of that cycle, whatever
  the cycles before it met.
\<close>

theorem cycle_survives_provider_failure:
  "(\<exists>pr. analyzePods now cl = Inr pr
      \<and> analyzeAndGenerateRecommendations ord now cl co =
          Inr (co\<lparr>recommendations :=
                   analyzeNodes ord now cl @ pr @ analyzeDeployments now cl\<rparr>))
   \<and> analyzeNodes ord now (cl\<lparr>list_nodes := Inl e\<rparr>) = []
   \<and> analyzeNodes ord now (cl\<lparr>list_node_metrics := Inl e\<rparr>) = []
   \<and> analyzePods now (cl\<lparr>list_pods := Inl e\<rparr>) = Inr []
   \<and> analyzePods now (cl\<lparr>list_pod_metrics := Inl e\<rparr>) = Inr []
   \<and> analyzeDeployments now (cl\<lparr>list_deployments := Inl e\<rparr>) = []
   \<and> analyzeNodes ord now (cl\<lparr>list_pods := ps, list_pod_metrics := pms, list_deployments := ds\<rparr>)
       = analyzeNodes ord now cl
   \<and> analyzePods now (cl\<lparr>list_nodes := ns, list_node_metrics := nms, list_deployments := ds\<rparr>)
       = analyzePods now cl
   \<and> analyzeDeployments now
         (cl\<lparr>list_nodes := ns, list_node_metrics := nms, list_pods := ps, list_pod_metrics := pms\<rparr>)
       = analyzeDeployments now cl
   \<and> (\<exists>co' pr. StartMonitoring ord clock env k (Suc n) co = Inr co'
         \<and> analyzePods (clock (k + n)) (env (k + n)) = Inr pr
         \<and> recommendations co' =
             analyzeNodes ord (clock (k + n)) (env (k + n)) @ pr
               @ analyzeDeployments (clock (k + n)) (env (k + n)))"
proof -
  have fail: "analyzeNodes ord now (cl\<lparr>list_nodes := Inl e\<rparr>) = []"
    "analyzeNodes ord now (cl\<lparr>list_node_metrics := Inl e\<rparr>) = []"
    "analyzePods now (cl\<lparr>list_pods := Inl e\<rparr>) = Inr []"
    "analyzePods now (cl\<lparr>list_pod_metrics := Inl e\<rparr>) = Inr []"
    "analyzeDeployments now (cl\<lparr>list_deployments := Inl e\<rparr>) = []"
    by (simp_all add: analyzeNodes_def analyzePods_def analyzeDeployments_def split: sum.splits)
  have indep: "analyzeNodes ord now
                 (cl\<lparr>list_pods := ps, list_pod_metrics := pms, list_deployments := ds\<rparr>)
               = analyzeNodes ord now cl"
    "analyzePods now (cl\<lparr>list_nodes := ns, list_node_metrics := nms, list_deployments := ds\<rparr>)
       = analyzePods now cl"
    "analyzeDeployments now
         (cl\<lparr>list_nodes := ns, list_node_metrics := nms, list_pods := ps, list_pod_metrics := pms\<rparr>)
       = analyzeDeployments now cl"
    by (simp_all add: analyzeNodes_def analyzePods_def analyzeDeployments_def split: sum.splits)
  have loop: "\<exists>co' pr. StartMonitoring ord clock env k (Suc n) co = Inr co'
         \<and> analyzePods (clock (k + n)) (env (k + n)) = Inr pr
         \<and> recommendations co' =
             analyzeNodes ord (clock (k + n)) (env (k + n)) @ pr
               @ analyzeDeployments (clock (k + n)) (env (k + n))"
  proof -
    obtain co1 where 1: "StartMonitoring ord clock env k n co = Inr co1"
      using StartMonitoring_returns by blast
    obtain pr where 2: "analyzePods (clock (k + n)) (env (k + n)) = Inr pr"
      and 3: "analyzeAndGenerateRecommendations ord (clock (k + n)) (env (k + n)) co1 =
         Inr (co1\<lparr>recommendations :=
                  analyzeNodes ord (clock (k + n)) (env (k + n)) @ pr
                    @ analyzeDeployments (clock (k + n)) (env (k + n))\<rparr>)"
      using cycle_returns[of "clock (k + n)" "env (k + n)" ord co1] by blast
    show ?thesis
      by (subst StartMonitoring_last) (simp add: 1 2 3)
  qed
  from cycle_returns[of now cl ord co] fail indep loop show ?thesis
    by (intro conjI)
qed

text \<open>The theorem on the cycle whose listing of the pods fails: the recommendation for
  the node and the one for the deployment are stored.\<close>

theorem cycle_survives_provider_failure_witness:
  "analyzeAndGenerateRecommendations table_order 0 failing_pods_cluster \<lparr>recommendations = []\<rparr> =
     Inr \<lparr>recommendations =
       [\<lparr>Type = ''node_optimization'',
         Resource = ''ip-10-0-1-23.t3.large'',
         Namespace = [],
         Description =
           NodeUnderutilized ''ip-10-0-1-23.t3.large'' (Fin 7.5) (Fin 6.103515625),
         Impact = ''Consider consolidating workloads or downsizing'',
         Savings = 5901516951706297 / 140737488355328,
         Priority = ''medium'',
         Timestamp = 0\<rparr>,
        \<lparr>Type = ''horizontal_scaling'',
         Resource = ''default/api'',
         Namespace = ''default'',
         Description = DeploymentAutoScaling ''api'',
         Impact = ''Implement HPA to scale based on CPU/memory usage'',
         Savings = 25,
         Priority = ''medium'',
         Timestamp = 0\<rparr>]\<rparr>"
proof -
  have n: "analyzeNodes table_order 0 failing_pods_cluster =
       [\<lparr>Type = ''node_optimization'',
         Resource = ''ip-10-0-1-23.t3.large'',
         Namespace = [],
         Description =
           NodeUnderutilized ''ip-10-0-1-23.t3.large'' (Fin 7.5) (Fin 6.103515625),
         Impact = ''Consider consolidating workloads or downsizing'',
         Savings = 5901516951706297 / 140737488355328,
         Priority = ''medium'',
         Timestamp = 0\<rparr>]"
    by (simp add: analyzeNodes_def failing_pods_cluster_def Let_def scenario_A_cpu scenario_A_mem
        underutilizedNode_def t3_large_savings[OF scenario_A_match])
       (simp add: scenario_A_node_def scenario_A_usage_def)
  have p: "analyzePods 0 failing_pods_cluster = Inr []"
    by (simp add: analyzePods_def failing_pods_cluster_def)
  have d: "analyzeDeployments 0 failing_pods_cluster =
        [\<lparr>Type = ''horizontal_scaling'',
         Resource = ''default/api'',
         Namespace = ''default'',
         Description = DeploymentAutoScaling ''api'',
         Impact = ''Implement HPA to scale based on CPU/memory usage'',
         Savings = 25,
         Priority = ''medium'',
         Timestamp = 0\<rparr>]"
    by (simp add: analyzeDeployments_def failing_pods_cluster_def hasResources_def
        scenario_B_container_def horizontalScaling_def deploymentResource_def)
  from cycle_survives_provider_failure
         [of 0 failing_pods_cluster table_order "\<lparr>recommendations = []\<rparr>"]
  show ?thesis by (auto simp: n p d)
qed

lemma scenario_A_cycle:
  "analyzeAndGenerateRecommendations table_order 0 scenario_A \<lparr>recommendations = []\<rparr>
     = Inr scenario_A_result"
proof -
  have "analyzeNodes table_order 0 scenario_A = recommendations scenario_A_result"
    by (simp add: analyzeNodes_def scenario_A_def Let_def scenario_A_cpu scenario_A_mem
        underutilizedNode_def t3_large_savings[OF scenario_A_match] scenario_A_result_def)
       (simp add: scenario_A_node_def scenario_A_usage_def)
  moreover have "analyzePods 0 scenario_A = Inr []"
    by (simp add: analyzePods_def scenario_A_def)
  moreover have "analyzeDeployments 0 scenario_A = []"
    by (simp add: analyzeDeployments_def scenario_A_def)
  ultimately show ?thesis
    by (simp add: analyzeAndGenerateRecommendations_def scenario_A_result_def)
qed

section \<open>Properties of the cost summary\<close>

lemma namespace_fold_lookup:
  "foldl addNamespaceCost m pms ns =
     (if ns \<in> pm_Namespace ` set pms
      then Some (foldl fadd (case m ns of None \<Rightarrow> 0 | Some c \<Rightarrow> c)
                   (map pm_EstimatedCost (filter (\<lambda>p. pm_Namespace p = ns) pms)))
      else m ns)"
proof (induction pms arbitrary: m)
  case Nil
  show ?case by simp
next
  case (Cons p pms)
  have e: "filter (\<lambda>q. pm_Namespace q = k) pms = []" if "k \<notin> pm_Namespace ` set pms" for k
    using that by (auto simp: filter_empty_conv)
  show ?case
    by (simp add: Cons.IH) (auto simp: addNamespaceCost_def e split: option.splits)
qed

lemma getPodMetrics_loop_closed:
  "getPodMetrics_loop pms pods acc =
     acc @ map (\<lambda>pod. podRecord pod
                  (the (find (\<lambda>m. pu_Name m = pod_Name pod \<and> pu_Namespace m = pod_Namespace pod)
                          pms)))
             (reportedPods pms pods)"
  by (induction pods arbitrary: acc) (auto simp: reportedPods_def split: option.splits)

lemma podRecord_fields:
  "pm_Name (podRecord pod m) = pod_Name pod"
  "pm_Namespace (podRecord pod m) = pod_Namespace pod"
  "pm_EstimatedCost (podRecord pod m) =
     estimatePodCost (totalRequest ResourceCPU (pod_Containers pod))
       (totalRequest ResourceMemory (pod_Containers pod))"
  by (simp_all add: podRecord_def Let_def)

text \<open>
  Claim C7, amended. When both listings succeed, the pods that \<open>getPodMetrics\<close> reports
  are, in the order of the listing, the running pods that have a usage sample, each with
  the cost estimated from its requests: a pod without a sample, or one that is not
  running, is not among them. The namespace map of every summary has an entry for the
  namespaces of the reported pods and for no other, and the entry of a namespace is the
  \<^verbatim>\<open>float64\<close> sum, from zero and in the order of the listing, of the estimated costs of
  the reported pods of that namespace.
\<close>

theorem namespace_costs_grouping:
  assumes "list_pods cl = Inr pods" and "list_pod_metrics cl = Inr podMetricsList"
  shows "map (\<lambda>p. (pm_Namespace p, pm_Name p)) (getPodMetrics cl) =
           map (\<lambda>pod. (pod_Namespace pod, pod_Name pod)) (reportedPods podMetricsList pods)
       \<and> map pm_EstimatedCost (getPodMetrics cl) =
           map (\<lambda>pod. estimatePodCost (totalRequest ResourceCPU (pod_Containers pod))
                        (totalRequest ResourceMemory (pod_Containers pod)))
             (reportedPods podMetricsList pods)
       \<and> (\<forall>ns. NamespaceCosts (generateCostSummary ord now co co' cl) ns =
             (if ns \<in> pod_Namespace ` set (reportedPods podMetricsList pods)
              then Some (foldl fadd 0
                           (map pm_EstimatedCost
                              (filter (\<lambda>p. pm_Namespace p = ns) (getPodMetrics cl))))
              else None))"
proof -
  have g: "getPodMetrics cl =
     map (\<lambda>pod. podRecord pod
            (the (find (\<lambda>m. pu_Name m = pod_Name pod \<and> pu_Namespace m = pod_Namespace pod)
                    podMetricsList)))
       (reportedPods podMetricsList pods)"
    by (simp add: getPodMetrics_def assms getPodMetrics_loop_closed)
  have 1: "map (\<lambda>p. (pm_Namespace p, pm_Name p)) (getPodMetrics cl) =
           map (\<lambda>pod. (pod_Namespace pod, pod_Name pod)) (reportedPods podMetricsList pods)"
    unfolding g by (simp add: podRecord_fields comp_def)
  have 2: "map pm_EstimatedCost (getPodMetrics cl) =
           map (\<lambda>pod. estimatePodCost (totalRequest ResourceCPU (pod_Containers pod))
                        (totalRequest ResourceMemory (pod_Containers pod)))
             (reportedPods podMetricsList pods)"
    unfolding g by (simp add: podRecord_fields comp_def)
  have n: "pm_Namespace ` set (getPodMetrics cl) =
           pod_Namespace ` set (reportedPods podMetricsList pods)"
    unfolding g by (simp add: podRecord_fields image_image)
  have 3: "NamespaceCosts (generateCostSummary ord now co co' cl) ns =
             (if ns \<in> pod_Namespace ` set (reportedPods podMetricsList pods)
              then Some (foldl fadd 0
                           (map pm_EstimatedCost
                              (filter (\<lambda>p. pm_Namespace p = ns) (getPodMetrics cl))))
              else None)" for ns
    by (simp add: generateCostSummary_def Let_def namespaceCosts_def namespace_fold_lookup n)
  from 1 2 3 show ?thesis by blast
qed

lemma pod_costs:
  "estimatePodCost (1 / 10) 0 = 4053239664633447 / 1125899906842624"
  "estimatePodCost (1 / 2) 0 = 5066549580791809 / 281474976710656"
  "estimatePodCost 1 1073741824 = 3039929748475085 / 70368744177664"
  by (simp_all add: estimatePodCost_def quantity_eval float_eval)

lemma pod_requests:
  "totalRequest ResourceCPU [scenario_B_container] = 500 / 1000"
  "totalRequest ResourceMemory [scenario_B_container] = 0"
  "totalRequest ResourceCPU [small_container] = 100 / 1000"
  "totalRequest ResourceMemory [small_container] = 0"
  "totalRequest ResourceCPU (pod_Containers db_pod) = 1"
  "totalRequest ResourceMemory (pod_Containers db_pod) = 1073741824"
  by (simp_all add: totalRequest_def addNonZero_def IsZero_def quantity_def
      scenario_B_container_def small_container_def db_pod_def)

text \<open>The theorem on the four pods: web and db are reported, and the map has the one
  entry of default, the float 61.2; dns, without a sample, and job, which is not
  running, appear nowhere.\<close>

theorem namespace_costs_grouping_witness:
  "map (\<lambda>p. (pm_Namespace p, pm_Name p)) (getPodMetrics namespace_cluster) =
     [(''default'', ''web''), (''default'', ''db'')]
   \<and> map pm_EstimatedCost (getPodMetrics namespace_cluster) =
       [5066549580791809 / 281474976710656, 3039929748475085 / 70368744177664]
   \<and> NamespaceCosts (generateCostSummary table_order 0 \<lparr>recommendations = []\<rparr>
                        \<lparr>recommendations = []\<rparr> namespace_cluster) ''default''
       = Some (4306567143673037 / 70368744177664)
   \<and> NamespaceCosts (generateCostSummary table_order 0 \<lparr>recommendations = []\<rparr>
                        \<lparr>recommendations = []\<rparr> namespace_cluster) ''kube-system'' = None
   \<and> NamespaceCosts (generateCostSummary table_order 0 \<lparr>recommendations = []\<rparr>
                        \<lparr>recommendations = []\<rparr> namespace_cluster) ''batch'' = None"
proof -
  have 1: "list_pods namespace_cluster = Inr [web_pod, dns_pod, job_pod, db_pod]"
    and 2: "list_pod_metrics namespace_cluster = Inr namespace_usages"
    by (simp_all add: namespace_cluster_def)
  have r: "reportedPods namespace_usages [web_pod, dns_pod, job_pod, db_pod] = [web_pod, db_pod]"
    by (simp add: reportedPods_def namespace_usages_def scenario_B_usage_def web_pod_def
        dns_pod_def job_pod_def db_pod_def)
  note T = namespace_costs_grouping[OF 1 2, of table_order 0 "\<lparr>recommendations = []\<rparr>"
      "\<lparr>recommendations = []\<rparr>", unfolded r]
  have names: "map (\<lambda>p. (pm_Namespace p, pm_Name p)) (getPodMetrics namespace_cluster) =
     [(''default'', ''web''), (''default'', ''db'')]"
    using T[THEN conjunct1] by (simp add: web_pod_def db_pod_def)
  have w: "pod_Containers web_pod = [scenario_B_container]"
    by (simp add: web_pod_def)
  have costs: "map pm_EstimatedCost (getPodMetrics namespace_cluster) =
       [5066549580791809 / 281474976710656, 3039929748475085 / 70368744177664]"
    using T[THEN conjunct2, THEN conjunct1] by (simp add: w pod_requests pod_costs)
  have all_default: "filter (\<lambda>p. pm_Namespace p = ''default'') (getPodMetrics namespace_cluster)
                     = getPodMetrics namespace_cluster"
    using names[THEN arg_cong, of "map fst"] by (auto simp: filter_id_conv comp_def)
  have nss: "pod_Namespace ` set [web_pod, db_pod] = {''default''}"
    by (simp add: web_pod_def db_pod_def)
  note L = T[THEN conjunct2, THEN conjunct2, unfolded nss]
  have d: "NamespaceCosts (generateCostSummary table_order 0 \<lparr>recommendations = []\<rparr>
                        \<lparr>recommendations = []\<rparr> namespace_cluster) ''default''
       = Some (4306567143673037 / 70368744177664)"
    by (subst L[THEN spec, of "''default''"]) (simp add: all_default costs float_eval)
  have k: "NamespaceCosts (generateCostSummary table_order 0 \<lparr>recommendations = []\<rparr>
                        \<lparr>recommendations = []\<rparr> namespace_cluster) ''kube-system'' = None"
    by (subst L[THEN spec, of "''kube-system''"]) simp
  have b: "NamespaceCosts (generateCostSummary table_order 0 \<lparr>recommendations = []\<rparr>
                        \<lparr>recommendations = []\<rparr> namespace_cluster) ''batch'' = None"
    by (subst L[THEN spec, of "''batch''"]) simp
  from names costs d k b show ?thesis by (intro conjI)
qed

lemma rounding_cluster_metrics:
  "map (\<lambda>p. (pm_Namespace p, pm_EstimatedCost p)) (getPodMetrics rounding_cluster) =
     [(''a'', 4053239664633447 / 1125899906842624),
      (''b'', 4053239664633447 / 1125899906842624),
      (''a'', 5066549580791809 / 281474976710656)]"
  by (simp add: getPodMetrics_def rounding_cluster_def podRecord_fields pod_requests pod_costs)

text \<open>
  Claim C7 as stated fails: with requests of 100m, 100m and 500m in the namespaces a, b
  and a, the pods cost 3.6000000000000005, 3.6000000000000005 and 18.000000000000004.
  The entry of a is their rounded sum 21.600000000000005, so the values of the map sum
  to more than the costs of the pods do, in exact arithmetic, and in \<^verbatim>\<open>float64\<close> as
  well: 25.200000000000006 against 25.200000000000003.
\<close>

theorem namespace_costs_rounded:
  "map pm_EstimatedCost (getPodMetrics rounding_cluster) =
     [4053239664633447 / 1125899906842624, 4053239664633447 / 1125899906842624,
      5066549580791809 / 281474976710656]
   \<and> NamespaceCosts (generateCostSummary table_order 0 \<lparr>recommendations = []\<rparr>
                        \<lparr>recommendations = []\<rparr> rounding_cluster)
       = [''a'' \<mapsto> 6079859496950171 / 281474976710656,
          ''b'' \<mapsto> 4053239664633447 / 1125899906842624]
   \<and> (6079859496950171 / 281474976710656 + 4053239664633447 / 1125899906842624 :: real)
       = 28372677652434131 / 1125899906842624
   \<and> (4053239664633447 / 1125899906842624 + 4053239664633447 / 1125899906842624
        + 5066549580791809 / 281474976710656 :: real)
       = 28372677652434130 / 1125899906842624
   \<and> fadd (fadd 0 (6079859496950171 / 281474976710656)) (4053239664633447 / 1125899906842624)
       = 7093169413108533 / 281474976710656
   \<and> fadd (fadd (fadd 0 (4053239664633447 / 1125899906842624))
               (4053239664633447 / 1125899906842624)) (5066549580791809 / 281474976710656)
       = 1773292353277133 / 70368744177664"
proof -
  have c: "map pm_EstimatedCost (getPodMetrics rounding_cluster) =
     [4053239664633447 / 1125899906842624, 4053239664633447 / 1125899906842624,
      5066549580791809 / 281474976710656]"
    using rounding_cluster_metrics[THEN arg_cong, of "map snd"] by (simp add: comp_def)
  have va: "fadd (4053239664633447 / 1125899906842624)
              (5066549580791809 / 281474976710656) = 6079859496950171 / 281474976710656"
    and vb: "fadd 0 (4053239664633447 / 1125899906842624) = 4053239664633447 / 1125899906842624"
    by (simp_all add: float_eval)
  have m: "NamespaceCosts (generateCostSummary table_order 0 \<lparr>recommendations = []\<rparr>
                        \<lparr>recommendations = []\<rparr> rounding_cluster)
       = [''a'' \<mapsto> 6079859496950171 / 281474976710656,
          ''b'' \<mapsto> 4053239664633447 / 1125899906842624]"
  proof -
    obtain p1 p2 p3 where g: "getPodMetrics rounding_cluster = [p1, p2, p3]"
      and f: "pm_Namespace p1 = ''a''" "pm_Namespace p2 = ''b''" "pm_Namespace p3 = ''a''"
        "pm_EstimatedCost p1 = 4053239664633447 / 1125899906842624"
        "pm_EstimatedCost p2 = 4053239664633447 / 1125899906842624"
        "pm_EstimatedCost p3 = 5066549580791809 / 281474976710656"
      using rounding_cluster_metrics by (auto simp: map_eq_Cons_conv)
    show ?thesis
      by (rule ext)
         (simp add: generateCostSummary_def Let_def namespaceCosts_def g addNamespaceCost_def f
            va vb)
  qed
  have s1: "(6079859496950171 / 281474976710656 + 4053239664633447 / 1125899906842624 :: real)
       = 28372677652434131 / 1125899906842624"
    and s2: "(4053239664633447 / 1125899906842624 + 4053239664633447 / 1125899906842624
        + 5066549580791809 / 281474976710656 :: real)
       = 28372677652434130 / 1125899906842624"
    by simp_all
  have f1: "fadd (fadd 0 (6079859496950171 / 281474976710656))
              (4053239664633447 / 1125899906842624) = 7093169413108533 / 281474976710656"
    and f2: "fadd (fadd (fadd 0 (4053239664633447 / 1125899906842624))
               (4053239664633447 / 1125899906842624)) (5066549580791809 / 281474976710656)
       = 1773292353277133 / 70368744177664"
    by (simp_all add: float_eval)
  from c m s1 s2 f1 f2 show ?thesis by (intro conjI)
qed

section \<open>Properties of the handlers\<close>

text \<open>
  Claim C8 as stated fails: after \<open>handleExecuteAction\<close> on the id 1, the list of
  \<open>handleActions\<close> still has the action 1 with status pending and no execution time.
\<close>

theorem execute_leaves_action_pending:
  "map act_ID (handleActions (fst (handleExecuteAction \<lparr>recommendations = []\<rparr> ''1'')) 1) = [''1'']
   \<and> map act_Status (handleActions (fst (handleExecuteAction \<lparr>recommendations = []\<rparr> ''1'')) 1)
       = [''pending'']
   \<and> map act_ExecutedAt (handleActions (fst (handleExecuteAction \<lparr>recommendations = []\<rparr> ''1'')) 1)
       = [None]"
  by (simp add: handleActions_def handleExecuteAction_def)

text \<open>
  Claim C8, amended. For every action id, \<open>handleExecuteAction\<close> answers with the status
  executed and the id it was given, and leaves the optimizer as it was: it records
  nothing and touches no cluster. The list of \<open>handleActions\<close> is the same after it as
  before: the one action 1, with status pending and no execution time.
\<close>

theorem execute_action_is_stub:
  "handleExecuteAction co actionID =
     (co, [(''status'', ''executed''), (''action_id'', actionID),
           (''message'', ''Optimization action executed successfully'')])
   \<and> handleActions (fst (handleExecuteAction co actionID)) now = handleActions co now
   \<and> map act_ID (handleActions (fst (handleExecuteAction co actionID)) now) = [''1'']
   \<and> map act_Status (handleActions (fst (handleExecuteAction co actionID)) now) = [''pending'']
   \<and> map act_ExecutedAt (handleActions (fst (handleExecuteAction co actionID)) now) = [None]"
  by (simp add: handleActions_def handleExecuteAction_def)

text \<open>The theorem on the id 1.\<close>

theorem execute_action_is_stub_witness:
  "handleExecuteAction \<lparr>recommendations = []\<rparr> ''1'' =
     (\<lparr>recommendations = []\<rparr>,
      [(''status'', ''executed''), (''action_id'', ''1''),
       (''message'', ''Optimization action executed successfully'')])
   \<and> map act_Status (handleActions (fst (handleExecuteAction \<lparr>recommendations = []\<rparr> ''1'')) 2)
       = [''pending'']"
proof -
  note T = execute_action_is_stub[of "\<lparr>recommendations = []\<rparr>" "''1''" 2]
  from T[THEN conjunct1] T[THEN conjunct2, THEN conjunct2, THEN conjunct2, THEN conjunct1]
  show ?thesis by (rule conjI)
qed

section \<open>Properties of the two resolutions of the instance type\<close>

lemma table_key_lookup:
  assumes "k \<in> set (map fst NodeCostPerHour)"
  shows "k \<noteq> [] \<and> map_of NodeCostPerHour k = Some (cost_at k)"
proof -
  from assms obtain c where "map_of NodeCostPerHour k = Some c"
    by (metis map_of_eq_None_iff not_Some_eq set_map)
  moreover have "k \<noteq> []" using assms unfolding table_keys by auto
  ultimately show ?thesis by (simp add: cost_at_def)
qed

lemma default_lookup: "map_of NodeCostPerHour ''default'' = Some (cost_at ''default'')"
  using table_key_lookup[of "''default''"] unfolding table_keys by simp

lemma resolutions_same_find:
  assumes "map_order ord2"
    and "find (Contains nodeName) ord1 = find (Contains (ToLower nodeName)) ord2"
  shows "calculateNodeCost ord1 nodeName [] =
         calculateNodeCost ord3 nodeName (extractInstanceType ord2 nodeName)"
proof (cases "find (Contains (ToLower nodeName)) ord2")
  case None
  then show ?thesis
    using assms(2) by (simp add: calculateNodeCost_def extractInstanceType_def default_lookup)
next
  case (Some k)
  then have "k \<in> set ord2" by (auto simp: find_Some_iff)
  with assms(1) have "k \<in> set (map fst NodeCostPerHour)" by (simp add: map_order_def)
  from table_key_lookup[OF this] Some assms(2) show ?thesis
    by (simp add: calculateNodeCost_def extractInstanceType_def)
qed

lemma find_unique:
  assumes "distinct xs" and "distinct ys" and "set xs = set ys"
    and "length (filter P xs) \<le> 1"
  shows "find P xs = find P ys"
proof (cases "find P xs")
  case None
  then have "\<forall>x \<in> set ys. \<not> P x" using assms(3) by (auto simp: find_None_iff)
  then have "find P ys = None" by (auto simp: find_None_iff)
  with None show ?thesis by simp
next
  case (Some x)
  then have x: "x \<in> set xs" "P x" by (auto simp: find_Some_iff)
  then have "\<exists>y \<in> set ys. P y" using assms(3) by auto
  then obtain y where y: "find P ys = Some y"
    by (cases "find P ys") (auto simp: find_None_iff)
  then have y': "y \<in> set xs" "P y" using assms(3) by (auto simp: find_Some_iff)
  have "card (set (filter P xs)) \<le> length (filter P xs)"
    by (rule card_length)
  with assms(4) have "card (set (filter P xs)) \<le> 1" by simp
  moreover have "{x, y} \<subseteq> set (filter P xs)" using x y' by simp
  ultimately have "card {x, y} \<le> 1"
    by (meson card_mono finite_set le_trans)
  then have "x = y" by (cases "x = y") simp_all
  with Some y show ?thesis by simp
qed

text \<open>
  Claim C9, amended. For a node name that lower-casing leaves as it is, the rate that
  \<open>calculateNodeCost\<close> resolves from the name (the path of the recommendations) is the
  rate of the type that \<open>extractInstanceType\<close> finds (the path of \<open>getNodeMetrics\<close>),
  provided that the two loops over the price table visit its labels in the same order,
  or that the name contains at most one label.
\<close>

theorem instance_type_resolutions_agree:
  assumes "ToLower nodeName = nodeName" and "map_order ord1" and "map_order ord2"
    and "ord1 = ord2 \<or> length (filter (Contains nodeName) ord1) \<le> 1"
  shows "calculateNodeCost ord1 nodeName [] =
         calculateNodeCost ord3 nodeName (extractInstanceType ord2 nodeName)"
proof -
  have "find (Contains nodeName) ord1 = find (Contains nodeName) ord2"
    using assms(4)
  proof
    assume "ord1 = ord2"
    then show ?thesis by simp
  next
    assume "length (filter (Contains nodeName) ord1) \<le> 1"
    with assms(2,3) show ?thesis
      by (intro find_unique) (simp_all add: map_order_def)
  qed
  then show ?thesis
    using resolutions_same_find[OF assms(3), of nodeName ord1 ord3] assms(1) by simp
qed

lemma lower_case_names:
  "ToLower ''ip-10-0-1-23.t3.large'' = ''ip-10-0-1-23.t3.large''"
  "ToLower ''t3.large.m5.large'' = ''t3.large.m5.large''"
  "ToLower ''T3.LARGE-1'' = ''t3.large-1''"
  by code_simp+

text \<open>The theorem on a name with the one label t3.large, the two loops running through
  the table in opposite orders: both paths give 0.0832.\<close>

theorem instance_type_resolutions_agree_witness:
  "calculateNodeCost table_order ''ip-10-0-1-23.t3.large'' [] = 0.0832
   \<and> calculateNodeCost table_order ''ip-10-0-1-23.t3.large''
        (extractInstanceType (rev table_order) ''ip-10-0-1-23.t3.large'') = 0.0832"
proof -
  have 4: "table_order = rev table_order
           \<or> length (filter (Contains ''ip-10-0-1-23.t3.large'') table_order) \<le> 1"
    by (simp add: table_order_def NodeCostPerHour_def)
  have "calculateNodeCost table_order ''ip-10-0-1-23.t3.large'' [] = 0.0832"
    by (simp add: calculateNodeCost_def table_order_def NodeCostPerHour_def cost_at_def)
  with instance_type_resolutions_agree
         [OF lower_case_names(1) map_order_table map_order_rev 4, of table_order]
  show ?thesis by simp
qed

text \<open>
  Claim C9 as stated fails: the name \<open>t3.large.m5.large\<close> contains two labels. A loop
  that runs through the table from its first label finds t3.large, a loop that runs
  from its last label finds m5.large; Go fixes no order, so the two paths can give
  0.0832 and 0.096.
\<close>

theorem resolutions_differ_by_order:
  "map_order table_order \<and> map_order (rev table_order)
   \<and> calculateNodeCost table_order ''t3.large.m5.large'' [] = 0.0832
   \<and> calculateNodeCost table_order ''t3.large.m5.large''
        (extractInstanceType (rev table_order) ''t3.large.m5.large'') = 0.096"
  by (simp add: map_order_table map_order_rev)
     (simp add: calculateNodeCost_def extractInstanceType_def lower_case_names table_order_def
        NodeCostPerHour_def cost_at_def)

text \<open>The two paths also part on a name with capital letters, in one and the same order:
  only \<open>extractInstanceType\<close> lower-cases the name.\<close>

lemma resolutions_differ_by_case:
  "calculateNodeCost table_order ''T3.LARGE-1'' [] = 0.1
   \<and> calculateNodeCost table_order ''T3.LARGE-1''
        (extractInstanceType table_order ''T3.LARGE-1'') = 0.0832"
  by (simp add: calculateNodeCost_def extractInstanceType_def lower_case_names table_order_def
        NodeCostPerHour_def cost_at_def)

section \<open>Properties of concurrent cycles\<close>

lemma run_snoc: "run ord (evs @ [e]) = step ord (run ord evs) e"
  by (simp add: run_def)

lemma filter_remove_nth:
  assumes "i < length xs"
  shows "length (filter P (take i xs @ drop (Suc i) xs)) \<le> length (filter P xs)"
proof -
  have "xs = take i xs @ xs ! i # drop (Suc i) xs"
    using assms by (rule id_take_nth_drop)
  then have "filter P xs = filter P (take i xs) @ filter P [xs ! i] @ filter P (drop (Suc i) xs)"
    by (metis append_Cons append_Nil filter_append)
  then show ?thesis by simp
qed

lemma CycleDone_publishes:
  assumes "\<not> crashed s" and "i < length (in_flight s)"
  shows "\<exists>pr. analyzePods (cy_now (in_flight s ! i)) (cy_cluster (in_flight s ! i)) = Inr pr
     \<and> step ord s (CycleDone i) =
         s\<lparr>optimizer := (optimizer s)\<lparr>recommendations :=
               analyzeNodes ord (cy_now (in_flight s ! i)) (cy_cluster (in_flight s ! i)) @ pr
                 @ analyzeDeployments (cy_now (in_flight s ! i)) (cy_cluster (in_flight s ! i))\<rparr>,
            in_flight := take i (in_flight s) @ drop (Suc i) (in_flight s)\<rparr>"
proof -
  let ?c = "in_flight s ! i"
  obtain pr where pr: "analyzePods (cy_now ?c) (cy_cluster ?c) = Inr pr"
    and c: "analyzeAndGenerateRecommendations ord (cy_now ?c) (cy_cluster ?c) (optimizer s) =
         Inr ((optimizer s)\<lparr>recommendations :=
                  analyzeNodes ord (cy_now ?c) (cy_cluster ?c) @ pr
                    @ analyzeDeployments (cy_now ?c) (cy_cluster ?c)\<rparr>)"
    using cycle_returns[of "cy_now ?c" "cy_cluster ?c" ord "optimizer s"] by blast
  show ?thesis
    using assms by (intro exI[of _ pr]) (simp add: pr c Let_def)
qed

lemma step_invariant:
  assumes "\<not> crashed s" and "length (filter (\<lambda>c. cy_origin c = Timer) (in_flight s)) \<le> 1"
  shows "\<not> crashed (step ord s e)
       \<and> length (filter (\<lambda>c. cy_origin c = Timer) (in_flight (step ord s e))) \<le> 1"
proof (cases e)
  case (MonitorCycle now cl)
  show ?thesis
  proof (cases "list_ex (\<lambda>c. cy_origin c = Timer) (in_flight s)")
    case True
    with assms MonitorCycle show ?thesis by simp
  next
    case False
    then have "filter (\<lambda>c. cy_origin c = Timer) (in_flight s) = []"
      by (auto simp: filter_empty_conv list_ex_iff)
    with assms False MonitorCycle show ?thesis by simp
  qed
next
  case (HandleOptimize now cl)
  with assms show ?thesis by simp
next
  case (CycleDone i)
  show ?thesis
  proof (cases "i < length (in_flight s)")
    case True
    from CycleDone_publishes[OF assms(1) True, of ord] obtain co where
      "step ord s (CycleDone i) =
         s\<lparr>optimizer := co, in_flight := take i (in_flight s) @ drop (Suc i) (in_flight s)\<rparr>"
      by blast
    with assms filter_remove_nth[OF True, of "\<lambda>c. cy_origin c = Timer"] CycleDone
    show ?thesis by simp
  next
    case False
    with assms CycleDone show ?thesis by simp
  qed
qed

lemma run_invariant:
  "\<not> crashed (run ord evs)
   \<and> length (filter (\<lambda>c. cy_origin c = Timer) (in_flight (run ord evs))) \<le> 1"
proof (induction evs rule: rev_induct)
  case Nil
  show ?case by (simp add: run_def initial_def)
next
  case (snoc e evs)
  then show ?case
    unfolding run_snoc using step_invariant by blast
qed

text \<open>
  Claim C1 as stated fails: a request to \<^verbatim>\<open>/api/optimize\<close> that arrives while the cycle
  of the monitoring loop runs starts a second cycle next to it, and one more request a
  third: nothing is coalesced and nothing is queued.
\<close>

theorem three_cycles_in_flight:
  "map cy_origin
     (in_flight (run table_order
        [MonitorCycle 0 scenario_A, HandleOptimize 1 scenario_A, HandleOptimize 2 scenario_A]))
   = [Timer, OnDemand, OnDemand]"
  by (simp add: run_def initial_def)

text \<open>
  Claim C1, amended. The code has no policy for overlapping triggers. After every
  sequence of starts and ends of cycles: no cycle has panicked; at most one cycle of the
  monitoring loop is in flight, the loop being sequential; a request to
  \<^verbatim>\<open>/api/optimize\<close> always adds a cycle of its own to those in flight, however many
  there are; and a cycle that ends replaces the stored list by its whole list, the
  recommendations for the nodes, the pods and the deployments of the answers it got, in
  one step of the model, the assignment that ends
  \<^verbatim>\<open>analyzeAndGenerateRecommendations\<close>.
\<close>

theorem overlapping_cycles:
  "\<not> crashed (run ord evs)
   \<and> length (filter (\<lambda>c. cy_origin c = Timer) (in_flight (run ord evs))) \<le> 1
   \<and> in_flight (step ord (run ord evs) (HandleOptimize now cl)) =
       in_flight (run ord evs) @ [\<lparr>cy_origin = OnDemand, cy_now = now, cy_cluster = cl\<rparr>]
   \<and> (i < length (in_flight (run ord evs)) \<longrightarrow>
        (\<exists>pr. analyzePods (cy_now (in_flight (run ord evs) ! i))
                (cy_cluster (in_flight (run ord evs) ! i)) = Inr pr
           \<and> recommendations (optimizer (step ord (run ord evs) (CycleDone i))) =
               analyzeNodes ord (cy_now (in_flight (run ord evs) ! i))
                 (cy_cluster (in_flight (run ord evs) ! i))
               @ pr
               @ analyzeDeployments (cy_now (in_flight (run ord evs) ! i))
                   (cy_cluster (in_flight (run ord evs) ! i))))"
proof -
  note inv = run_invariant[of ord evs]
  have opt: "in_flight (step ord (run ord evs) (HandleOptimize now cl)) =
       in_flight (run ord evs) @ [\<lparr>cy_origin = OnDemand, cy_now = now, cy_cluster = cl\<rparr>]"
    using inv by simp
  have ended: "\<exists>pr. analyzePods (cy_now (in_flight (run ord evs) ! i))
                (cy_cluster (in_flight (run ord evs) ! i)) = Inr pr
           \<and> recommendations (optimizer (step ord (run ord evs) (CycleDone i))) =
               analyzeNodes ord (cy_now (in_flight (run ord evs) ! i))
                 (cy_cluster (in_flight (run ord evs) ! i))
               @ pr
               @ analyzeDeployments (cy_now (in_flight (run ord evs) ! i))
                   (cy_cluster (in_flight (run ord evs) ! i))"
    if "i < length (in_flight (run ord evs))"
  proof -
    from CycleDone_publishes[OF inv[THEN conjunct1] that, of ord] obtain pr where
      1: "analyzePods (cy_now (in_flight (run ord evs) ! i))
            (cy_cluster (in_flight (run ord evs) ! i)) = Inr pr"
      and 2: "step ord (run ord evs) (CycleDone i) =
         (run ord evs)\<lparr>optimizer := (optimizer (run ord evs))\<lparr>recommendations :=
               analyzeNodes ord (cy_now (in_flight (run ord evs) ! i))
                 (cy_cluster (in_flight (run ord evs) ! i)) @ pr
                 @ analyzeDeployments (cy_now (in_flight (run ord evs) ! i))
                     (cy_cluster (in_flight (run ord evs) ! i))\<rparr>,
            in_flight := take i (in_flight (run ord evs)) @ drop (Suc i) (in_flight (run ord evs))\<rparr>"
      by blast
    show ?thesis
      by (intro exI[of _ pr] conjI, rule 1, subst 2, simp)
  qed
  from inv opt ended show ?thesis by blast
qed

text \<open>The theorem on a cycle of the loop on scenario A with a request beside it: two
  cycles are in flight, and when the first ends the stored list is the one of scenario A.\<close>

theorem overlapping_cycles_witness:
  "map cy_origin (in_flight (run table_order [MonitorCycle 0 scenario_A, HandleOptimize 1 empty_cluster]))
     = [Timer, OnDemand]
   \<and> recommendations
        (optimizer (step table_order
           (run table_order [MonitorCycle 0 scenario_A, HandleOptimize 1 empty_cluster])
           (CycleDone 0)))
     = recommendations scenario_A_result"
proof -
  let ?evs = "[MonitorCycle 0 scenario_A, HandleOptimize 1 empty_cluster]"
  have fl: "in_flight (run table_order ?evs) =
     [\<lparr>cy_origin = Timer, cy_now = 0, cy_cluster = scenario_A\<rparr>,
      \<lparr>cy_origin = OnDemand, cy_now = 1, cy_cluster = empty_cluster\<rparr>]"
    by (simp add: run_def initial_def)
  have i: "0 < length (in_flight (run table_order ?evs))"
    unfolding fl by simp
  have parts: "analyzeNodes table_order 0 scenario_A = recommendations scenario_A_result"
      "analyzePods 0 scenario_A = Inr []" "analyzeDeployments 0 scenario_A = []"
    using scenario_A_cycle
    by (auto simp: analyzeAndGenerateRecommendations_def analyzePods_def analyzeDeployments_def
        scenario_A_def scenario_A_result_def)
  note T = overlapping_cycles[of table_order ?evs 0 scenario_A 0]
  from T[THEN conjunct2, THEN conjunct2, THEN conjunct2, rule_format, OF i]
  have "recommendations (optimizer (step table_order (run table_order ?evs) (CycleDone 0)))
        = recommendations scenario_A_result"
    unfolding fl by (auto simp: parts)
  then show ?thesis unfolding fl by simp
qed

section \<open>Properties of the summary and the stored list\<close>

lemma request_then_done:
  "optimizer (run table_order [HandleOptimize 0 scenario_A]) = \<lparr>recommendations = []\<rparr>"
  "optimizer (step table_order (run table_order [HandleOptimize 0 scenario_A]) (CycleDone 0))
     = scenario_A_result"
  by (simp_all add: run_def initial_def scenario_A_cycle)

text \<open>
  Claim C2 as stated fails: after a cycle on scenario A, whose one node gave the one
  stored recommendation, a summary asked for when the cluster lists no node counts no
  node and no compute cost, next to a recommendation count of one. Its node figures come
  from the listing of the query, not from the one of the cycle. And a summary whose loop
  over the savings runs before that cycle stores its list, and whose count is read after,
  has potential savings of zero next to a recommendation count of one.
\<close>

theorem summary_of_another_snapshot:
  "analyzeAndGenerateRecommendations table_order 0 scenario_A \<lparr>recommendations = []\<rparr>
     = Inr scenario_A_result
   \<and> length (handleRecommendations scenario_A_result) = 1
   \<and> length (getNodeMetrics table_order scenario_A) = 1
   \<and> RecommendationCount
        (handleCostSummary table_order 1 scenario_A_result scenario_A_result empty_cluster) = 1
   \<and> NodeCount
        (handleCostSummary table_order 1 scenario_A_result scenario_A_result empty_cluster) = 0
   \<and> ComputeCost
        (handleCostSummary table_order 1 scenario_A_result scenario_A_result empty_cluster) = 0
   \<and> PotentialSavings
        (handleCostSummary table_order 1
           (optimizer (run table_order [HandleOptimize 0 scenario_A]))
           (optimizer (step table_order (run table_order [HandleOptimize 0 scenario_A])
                         (CycleDone 0)))
           empty_cluster) = 0
   \<and> RecommendationCount
        (handleCostSummary table_order 1
           (optimizer (run table_order [HandleOptimize 0 scenario_A]))
           (optimizer (step table_order (run table_order [HandleOptimize 0 scenario_A])
                         (CycleDone 0)))
           empty_cluster) = 1"
  unfolding request_then_done
  by (simp add: scenario_A_cycle)
     (simp add: handleRecommendations_def handleCostSummary_def generateCostSummary_def
        getNodeMetrics_def getPodMetrics_def empty_cluster_def scenario_A_def
        scenario_A_result_def scenario_A_node_def scenario_A_usage_def Let_def)

text \<open>
  Claim C2, amended. For every query, the recommendation count of the summary is the
  length of the list that the optimizer holds when the summary reads it for the count,
  and the potential savings are the \<^verbatim>\<open>float64\<close> sum, from zero and in the order of the
  list, of the savings of the list that the optimizer holds when the loop of the summary
  reads it. Nothing orders the two reads and the cycles: they are reads of one list only
  when no cycle stores its list between them. The node, pod and cost figures are
  computed from the listings of the query itself: they are the same whatever lists the
  optimizer holds.
\<close>

theorem summary_reads_stored_list:
  "RecommendationCount (handleCostSummary ord now co co' cl) = length (handleRecommendations co')
   \<and> PotentialSavings (handleCostSummary ord now co co' cl)
       = foldl fadd 0 (map Savings (handleRecommendations co))
   \<and> NodeCount (handleCostSummary ord now co co' cl) = length (getNodeMetrics ord cl)
   \<and> PodCount (handleCostSummary ord now co co' cl) = length (getPodMetrics cl)
   \<and> ComputeCost (handleCostSummary ord now co co' cl)
       = foldl fadd 0 (map nm_EstimatedCost (getNodeMetrics ord cl))
   \<and> TotalMonthlyCost (handleCostSummary ord now co co' cl)
       = fadd (foldl fadd 0 (map nm_EstimatedCost (getNodeMetrics ord cl))) 100
   \<and> NamespaceCosts (handleCostSummary ord now co co' cl) = namespaceCosts (getPodMetrics cl)
   \<and> handleCostSummary ord now c c' cl =
       (handleCostSummary ord now co co' cl)
         \<lparr>PotentialSavings := foldl fadd 0 (map Savings (handleRecommendations c)),
          RecommendationCount := length (handleRecommendations c')\<rparr>"
  by (simp add: handleCostSummary_def generateCostSummary_def handleRecommendations_def
      Let_def foldl_map)

text \<open>The theorem on two summaries asked for while the cluster is as in scenario A. One
  reads the list of the cycle on scenario A twice: one recommendation, savings of
  41.93279999999999, one node. The other reads the empty list before that cycle stores
  its list and the stored list after: one recommendation, no savings.\<close>

theorem summary_reads_stored_list_witness:
  "RecommendationCount
     (handleCostSummary table_order 1 scenario_A_result scenario_A_result scenario_A) = 1
   \<and> PotentialSavings
       (handleCostSummary table_order 1 scenario_A_result scenario_A_result scenario_A)
       = 5901516951706297 / 140737488355328
   \<and> NodeCount
       (handleCostSummary table_order 1 scenario_A_result scenario_A_result scenario_A) = 1
   \<and> RecommendationCount
       (handleCostSummary table_order 1 \<lparr>recommendations = []\<rparr> scenario_A_result scenario_A) = 1
   \<and> PotentialSavings
       (handleCostSummary table_order 1 \<lparr>recommendations = []\<rparr> scenario_A_result scenario_A) = 0"
proof -
  have n: "length (getNodeMetrics table_order scenario_A) = 1"
    by (simp add: getNodeMetrics_def scenario_A_def scenario_A_node_def scenario_A_usage_def
        Let_def)
  have l: "length (handleRecommendations scenario_A_result) = 1"
    by (simp add: handleRecommendations_def scenario_A_result_def)
  have s: "foldl fadd 0 (map Savings (handleRecommendations scenario_A_result))
             = 5901516951706297 / 140737488355328"
    by (simp add: handleRecommendations_def scenario_A_result_def float_eval)
  have z: "foldl fadd 0 (map Savings (handleRecommendations \<lparr>recommendations = []\<rparr>)) = 0"
    by (simp add: handleRecommendations_def)
  note T = summary_reads_stored_list[of table_order 1 scenario_A_result scenario_A_result
      scenario_A]
  note U = summary_reads_stored_list[of table_order 1 "\<lparr>recommendations = []\<rparr>"
      scenario_A_result scenario_A]
  have 1: "RecommendationCount
     (handleCostSummary table_order 1 scenario_A_result scenario_A_result scenario_A) = 1"
    by (subst T[THEN conjunct1]) (rule l)
  have 2: "PotentialSavings
       (handleCostSummary table_order 1 scenario_A_result scenario_A_result scenario_A)
       = 5901516951706297 / 140737488355328"
    by (subst T[THEN conjunct2, THEN conjunct1]) (rule s)
  have 3: "NodeCount
       (handleCostSummary table_order 1 scenario_A_result scenario_A_result scenario_A) = 1"
    by (subst T[THEN conjunct2, THEN conjunct2, THEN conjunct1]) (rule n)
  have 4: "RecommendationCount
       (handleCostSummary table_order 1 \<lparr>recommendations = []\<rparr> scenario_A_result scenario_A) = 1"
    by (subst U[THEN conjunct1]) (rule l)
  have 5: "PotentialSavings
       (handleCostSummary table_order 1 \<lparr>recommendations = []\<rparr> scenario_A_result scenario_A) = 0"
    by (subst U[THEN conjunct2, THEN conjunct1]) (rule z)
  from 1 2 3 4 5 show ?thesis by (intro conjI)
qed

end
